theory Spec2Isabelle
  imports Main "HOL-Library.Sublist"
begin

section \<open>Strings\<close>

text \<open>
  JavaScript strings are modelled as \<^typ>\<open>string\<close> (lists of 8-bit characters), so the
  model covers ASCII text. \<open>String.prototype.includes\<close> is the substring test and
  \<open>toLowerCase\<close> maps the letters A-Z to a-z and leaves every other character alone.
\<close>

fun str_includes :: "string \<Rightarrow> string \<Rightarrow> bool" where
  "str_includes [] k = (k = [])"
| "str_includes (c # s) k = (prefix k (c # s) \<or> str_includes s k)"

definition lower_char :: "char \<Rightarrow> char" where
  "lower_char c =
     (case map_of (zip ''ABCDEFGHIJKLMNOPQRSTUVWXYZ'' ''abcdefghijklmnopqrstuvwxyz'') c of
        Some d \<Rightarrow> d
      | None \<Rightarrow> c)"

definition toLowerCase :: "string \<Rightarrow> string" where
  "toLowerCase s = map lower_char s"

text \<open>
  The white space of \<open>trim()\<close> and of the regular expression class \<open>\s\<close>, restricted to
  ASCII: tab, line feed, vertical tab, form feed, carriage return and space.
\<close>

definition is_space :: "char \<Rightarrow> bool" where
  "is_space c = (c \<in> set [CHR 0x09, CHR 0x0A, CHR 0x0B, CHR 0x0C, CHR 0x0D, CHR '' ''])"

definition trim :: "string \<Rightarrow> string" where
  "trim s = rev (dropWhile is_space (rev (dropWhile is_space s)))"

section \<open>Intent classifier: \<open>determineResultType\<close> (lib/openai.ts)\<close>

datatype result_type = Table | Graph

definition graphKeywords :: "string list" where
  "graphKeywords =
     [''trend'', ''over time'', ''chart'', ''graph'', ''plot'', ''visualization'',
      ''compare'', ''comparison'', ''week by week'', ''month by month'', ''distribution'',
      ''histogram'', ''pie chart'', ''bar chart'']"

text \<open>The \<open>for (const keyword of graphKeywords)\<close> loop: the first hit returns \<open>"graph"\<close>.\<close>

fun keyword_loop :: "string \<Rightarrow> string list \<Rightarrow> result_type" where
  "keyword_loop queryLower [] = Table"
| "keyword_loop queryLower (keyword # rest) =
     (if str_includes queryLower keyword then Graph else keyword_loop queryLower rest)"

definition determineResultType :: "string \<Rightarrow> result_type" where
  "determineResultType query = keyword_loop (toLowerCase query) graphKeywords"

section \<open>JavaScript values and errors\<close>

text \<open>
  A thrown value is an \<open>Error\<close> object (its \<open>name\<close> and \<open>message\<close>) or some other
  value, kept by its \<open>String(...)\<close> conversion. \<open>String(error)\<close> on an \<open>Error\<close> is
  \<open>Error.prototype.toString\<close>.
\<close>

datatype thrown = JsError string string | NonError string

fun error_message :: "thrown \<Rightarrow> string" where
  "error_message (JsError name message) = message"
| "error_message (NonError s) = s"

fun String_of_error :: "thrown \<Rightarrow> string" where
  "String_of_error (JsError name message) =
     (if name = [] then message else if message = [] then name else name @ '': '' @ message)"
| "String_of_error (NonError s) = s"

text \<open>
  Values of type \<open>any\<close>: what \<open>JSON.parse\<close> returns and what a result row holds, with
  \<open>undefined\<close> for an absent property. Numbers are integers here; no claim depends on
  a fractional value.
\<close>

datatype jsval =
    Undefined
  | JNull
  | JBool bool
  | JNum int
  | JStr string
  | JArr "jsval list"
  | JObj "(string \<times> jsval) list"

type_synonym row = "(string \<times> jsval) list"

fun truthy :: "jsval \<Rightarrow> bool" where
  "truthy Undefined = False"
| "truthy JNull = False"
| "truthy (JBool b) = b"
| "truthy (JNum n) = (n \<noteq> 0)"
| "truthy (JStr s) = (s \<noteq> [])"
| "truthy (JArr xs) = True"
| "truthy (JObj kvs) = True"

text \<open>
  Reading a property \<open>v.k\<close>: a \<open>TypeError\<close> on \<open>null\<close> and \<open>undefined\<close>, the stored
  value on an object, \<open>undefined\<close> otherwise (none of the property names read by the
  program is a built-in property of a primitive or an array).
\<close>

fun get_prop :: "jsval \<Rightarrow> string \<Rightarrow> thrown + jsval" where
  "get_prop Undefined k = Inl (JsError ''TypeError'' ''Cannot read properties of undefined'')"
| "get_prop JNull k = Inl (JsError ''TypeError'' ''Cannot read properties of null'')"
| "get_prop (JObj kvs) k = Inr (case map_of kvs k of Some v \<Rightarrow> v | None \<Rightarrow> Undefined)"
| "get_prop v k = Inr Undefined"

text \<open>\<open>a || b\<close> on values.\<close>

definition or_else :: "jsval \<Rightarrow> jsval \<Rightarrow> jsval" where
  "or_else a b = (if truthy a then a else b)"

definition digit_char :: "nat \<Rightarrow> char" where
  "digit_char n = ''0123456789'' ! (n mod 10)"

text \<open>The last \<open>k\<close> decimal digits of \<open>n\<close>, zero padded (\<open>padStart(k, "0")\<close>).\<close>

primrec digits :: "nat \<Rightarrow> nat \<Rightarrow> string" where
  "digits 0 n = []"
| "digits (Suc k) n = digits k (n div 10) @ [digit_char n]"

fun show_nat :: "nat \<Rightarrow> string" where
  "show_nat n = (if n < 10 then [digit_char n] else show_nat (n div 10) @ [digit_char n])"

declare show_nat.simps [simp del]

definition show_int :: "int \<Rightarrow> string" where
  "show_int i = (if i < 0 then ''-'' @ show_nat (nat (- i)) else show_nat (nat i))"

text \<open>\<open>Array.prototype.join\<close> on strings.\<close>

fun join :: "string \<Rightarrow> string list \<Rightarrow> string" where
  "join sep [] = []"
| "join sep [x] = x"
| "join sep (x # y # ys) = x @ sep @ join sep (y # ys)"

text \<open>
  The conversion a template literal applies to a string or an absent value (the only
  values the program interpolates that are not numbers).
\<close>

fun template_string :: "jsval \<Rightarrow> string" where
  "template_string (JStr s) = s"
| "template_string Undefined = ''undefined''"
| "template_string JNull = ''null''"
| "template_string (JBool b) = (if b then ''true'' else ''false'')"
| "template_string (JNum n) = show_int n"
| "template_string (JArr xs) = join '','' (map template_string xs)"
| "template_string (JObj kvs) = ''[object Object]''"

section \<open>Data model (lib/database/interface.ts, lib/result-formatter.ts)\<close>

record ColumnSchema =
  col_name :: jsval
  col_dataType :: jsval

record TableSchema =
  tbl_name :: jsval
  tbl_columns :: "ColumnSchema list"

record DatabaseSchema =
  tables :: "TableSchema list"

record QueryResult =
  qr_columns :: "string list"
  qr_rows :: "row list"

record TableResult =
  tr_columns :: "string list"
  tr_rows :: "row list"

text \<open>
  \<open>GraphResult\<close>: every field is a value, \<open>Undefined\<close> when the object literal that
  builds the result leaves the property out. A sequence of rows is the array of the
  rows' objects.
\<close>

record GraphResult =
  gr_chartType :: jsval
  gr_title :: jsval
  gr_subtitle :: jsval
  gr_xAxis :: jsval
  gr_yAxis :: jsval
  gr_xAxisKey :: jsval
  gr_labels :: jsval
  gr_values :: jsval
  gr_series :: jsval
  gr_processedData :: jsval
  gr_rawData :: jsval
  gr_insights :: jsval
  gr_recommendedFilters :: jsval

definition rows_val :: "row list \<Rightarrow> jsval" where
  "rows_val rs = JArr (map JObj rs)"

definition formatForTable :: "QueryResult \<Rightarrow> TableResult" where
  "formatForTable queryResult =
     \<lparr>tr_columns = qr_columns queryResult, tr_rows = qr_rows queryResult\<rparr>"

section \<open>The collaborators of a request\<close>

text \<open>
  A chat-completion request carries the fixed prompt template filled with the values
  below; the template's constant text is not part of the model. \<open>JSON.stringify\<close> of the
  rows is represented by the rows themselves.
\<close>

datatype prompt =
    SqlPrompt string string string
  | VizPrompt string string "row list"

record chat_request =
  cr_model :: string
  cr_system :: string
  cr_user :: prompt
  cr_temperature_tenths :: nat
  cr_max_tokens :: nat
  cr_json_object :: bool

text \<open>What the \<open>pg\<close> driver's \<open>client.query\<close> resolves with.\<close>

record pg_result =
  pg_rows :: "row list option"
  pg_fields :: "string list"
  pg_rowCount :: jsval

text \<open>
  Everything outside the program, fixed for one request: the clock; the local time
  zone, as the ECMAScript function \<open>LocalTZA(t, isUTC)\<close>: the offset of local time from
  UTC in milliseconds that is in force at the instant \<open>t\<close> (\<open>isUTC\<close>) or at the local
  time \<open>t\<close> (not \<open>isUTC\<close>), so that it may change with daylight saving;
  the environment variables, the completion service (\<open>Inl\<close>: the call or the reading of
  \<open>choices[0].message.content\<close> throws; \<open>Inr None\<close>: the content is \<open>null\<close>),
  \<open>JSON.parse\<close>, and the \<open>pg\<close> pool: \<open>pool.connect()\<close>, \<open>client.query(sql, params)\<close>
  and \<open>pool.end()\<close>, the latter by the number of earlier \<open>end()\<close> calls on the pool
  (\<open>Some e\<close>: the promise rejects with \<open>e\<close>).
\<close>

record env =
  clock_now :: int
  LocalTZA :: "int \<Rightarrow> bool \<Rightarrow> int"
  OPENAI_MODEL :: "string option"
  DATABASE_TYPE :: "string option"
  DATABASE_URL :: "string option"
  chat_create :: "chat_request \<Rightarrow> thrown + string option"
  JSON_parse :: "string \<Rightarrow> thrown + jsval"
  pool_connect :: "thrown option"
  client_query :: "string \<Rightarrow> jsval list \<Rightarrow> thrown + pg_result"
  pool_end :: "nat \<Rightarrow> thrown option"

text \<open>
  \<open>getEnvVariable('OPENAI_MODEL', 'gpt-4o-mini')\<close>: the default when the variable is
  not set or empty (\<open>if (!value)\<close>).
\<close>

definition DEFAULT_MODEL :: "env \<Rightarrow> string" where
  "DEFAULT_MODEL e =
     (case OPENAI_MODEL e of
        None \<Rightarrow> ''gpt-4o-mini''
      | Some m \<Rightarrow> if m = [] then ''gpt-4o-mini'' else m)"

section \<open>Visualization synthesizer and fallback heuristic (lib/openai.ts)\<close>

definition is_date_column :: "string \<Rightarrow> bool" where
  "is_date_column col =
     (str_includes (toLowerCase col) ''date'' \<or> str_includes (toLowerCase col) ''time''
      \<or> str_includes (toLowerCase col) ''month'' \<or> str_includes (toLowerCase col) ''year'')"

text \<open>\<open>xs[i]\<close> on an array of strings: \<open>undefined\<close> out of range.\<close>

definition at_index :: "string list \<Rightarrow> nat \<Rightarrow> jsval" where
  "at_index xs i = (if i < length xs then JStr (xs ! i) else Undefined)"

definition fallbackVisualization :: "QueryResult \<Rightarrow> GraphResult" where
  "fallbackVisualization queryResult =
     (let columns = qr_columns queryResult;
          rows = qr_rows queryResult;
          xAxisKey0 = or_else (at_index columns 0) (JStr ''category'');
          dataField = (if length columns > 1 then at_index columns 1 else at_index columns 0);
          potentialDateColumns = filter is_date_column columns;
          chartType = (if length potentialDateColumns > 0 then ''line'' else ''bar'');
          xAxisKey = (if length potentialDateColumns > 0
                      then at_index potentialDateColumns 0 else xAxisKey0);
          series = JArr [JObj [(''dataKey'', dataField), (''name'', dataField),
                               (''color'', JStr ''#8884d8'')]]
      in \<lparr>gr_chartType = JStr chartType,
          gr_title = JStr (template_string dataField @ '' by '' @ template_string xAxisKey),
          gr_subtitle = Undefined,
          gr_xAxis = xAxisKey,
          gr_yAxis = dataField,
          gr_xAxisKey = xAxisKey,
          gr_labels = Undefined,
          gr_values = Undefined,
          gr_series = series,
          gr_processedData = rows_val rows,
          gr_rawData = rows_val rows,
          gr_insights = Undefined,
          gr_recommendedFilters = Undefined\<rparr>)"

text \<open>The early return for an empty result.\<close>

definition no_data_result :: GraphResult where
  "no_data_result =
     \<lparr>gr_chartType = JStr ''none'',
      gr_title = JStr ''No Data Available'',
      gr_subtitle = Undefined,
      gr_xAxis = JStr ''Category'',
      gr_yAxis = JStr ''Value'',
      gr_xAxisKey = Undefined,
      gr_labels = JArr [],
      gr_values = JArr [],
      gr_series = Undefined,
      gr_processedData = Undefined,
      gr_rawData = JArr [],
      gr_insights = Undefined,
      gr_recommendedFilters = Undefined\<rparr>"

definition viz_request :: "env \<Rightarrow> string \<Rightarrow> QueryResult \<Rightarrow> chat_request" where
  "viz_request e query queryResult =
     (let columns = qr_columns queryResult;
          rows = qr_rows queryResult;
          dataDescription =
            (if length rows > 50
             then show_nat (length rows) @ '' rows of data with columns: ''
                  @ join '', '' columns @ ''. '' @ [CHR 0x0A]
                  @ ''    Showing first 20 rows as sample.''
             else show_nat (length rows) @ '' rows of data with columns: ''
                  @ join '', '' columns);
          formattedData = (if length rows > 50 then take 20 rows else rows)
      in \<lparr>cr_model = DEFAULT_MODEL e,
          cr_system = ''You are a data visualization expert that transforms raw data into chart specifications.'',
          cr_user = VizPrompt query dataDescription formattedData,
          cr_temperature_tenths = 1,
          cr_max_tokens = 2000,
          cr_json_object = True\<rparr>)"

text \<open>
  The mapping of a parsed specification into a \<open>GraphResult\<close>. A specification that is
  \<open>null\<close> makes the first property read throw inside the inner \<open>try\<close>, whose \<open>catch\<close>
  returns the fallback; \<open>None\<close> stands for both ways into the fallback.
\<close>

definition spec_prop :: "jsval \<Rightarrow> string \<Rightarrow> jsval" where
  "spec_prop v k = (case get_prop v k of Inl err \<Rightarrow> Undefined | Inr x \<Rightarrow> x)"

definition map_spec :: "jsval \<Rightarrow> row list \<Rightarrow> GraphResult option" where
  "map_spec visualizationSpec rows =
     (case get_prop visualizationSpec ''chartType'' of
        Inl err \<Rightarrow> None
      | Inr chartType \<Rightarrow>
          if \<not> truthy chartType \<or> \<not> truthy (spec_prop visualizationSpec ''data'') then None
          else Some
            \<lparr>gr_chartType = chartType,
             gr_title = or_else (spec_prop visualizationSpec ''title'') (JStr ''Data Visualization''),
             gr_subtitle = spec_prop visualizationSpec ''subtitle'',
             gr_xAxis = or_else (spec_prop visualizationSpec ''xAxisLabel'') (JStr ''''),
             gr_yAxis = or_else (spec_prop visualizationSpec ''yAxisLabel'') (JStr ''''),
             gr_xAxisKey = spec_prop visualizationSpec ''xAxisKey'',
             gr_labels = Undefined,
             gr_values = Undefined,
             gr_series = or_else (spec_prop visualizationSpec ''series'') (JArr []),
             gr_processedData = spec_prop visualizationSpec ''data'',
             gr_rawData = rows_val rows,
             gr_insights = spec_prop visualizationSpec ''insights'',
             gr_recommendedFilters =
               or_else (spec_prop visualizationSpec ''recommendedFilters'') (JArr [])\<rparr>)"

text \<open>
  \<open>generateVisualizationFromData\<close> takes the number of completion calls made so far and
  returns it updated: one more for each \<open>openai.chat.completions.create\<close>.
\<close>

definition generateVisualizationFromData ::
  "env \<Rightarrow> nat \<Rightarrow> string \<Rightarrow> QueryResult \<Rightarrow> GraphResult \<times> nat" where
  "generateVisualizationFromData e calls query queryResult =
     (let rows = qr_rows queryResult in
      if length rows = 0 then (no_data_result, calls)
      else
        (case chat_create e (viz_request e query queryResult) of
           Inl err \<Rightarrow> (fallbackVisualization queryResult, calls + 1)
         | Inr content \<Rightarrow>
             (case content of
                None \<Rightarrow> (fallbackVisualization queryResult, calls + 1)
              | Some c \<Rightarrow>
                  if c = [] then (fallbackVisualization queryResult, calls + 1)
                  else
                    (case JSON_parse e c of
                       Inl err \<Rightarrow> (fallbackVisualization queryResult, calls + 1)
                     | Inr visualizationSpec \<Rightarrow>
                         (case map_spec visualizationSpec rows of
                            None \<Rightarrow> (fallbackVisualization queryResult, calls + 1)
                          | Some graphResult \<Rightarrow> (graphResult, calls + 1))))))"

text \<open>
  The invariant the data model asks of a \<open>GraphResult\<close>, in the specification's words:
  the \<open>dataKey\<close> of every \<open>SeriesConfig\<close> in \<open>series\<close> is a key of every element of
  \<open>processedData\<close>.
\<close>

fun has_key :: "jsval \<Rightarrow> jsval \<Rightarrow> bool" where
  "has_key (JObj kvs) (JStr k) = (k \<in> fst ` set kvs)"
| "has_key v k = False"

fun elements :: "jsval \<Rightarrow> jsval list" where
  "elements (JArr xs) = xs"
| "elements v = []"

definition series_keys_present :: "GraphResult \<Rightarrow> bool" where
  "series_keys_present g =
     list_all (\<lambda>s. list_all (\<lambda>d. has_key d (spec_prop s ''dataKey''))
                             (elements (gr_processedData g)))
              (elements (gr_series g))"

section \<open>The \<open>Date\<close> object\<close>

text \<open>
  A \<open>Date\<close> holds a time value: milliseconds since 1970-01-01T00:00:00Z. The functions
  below are those of the ECMAScript specification (Day, TimeWithinDay, DaysInYear,
  DayFromYear, YearFromTime, InLeapYear, DayWithinYear, MonthFromTime, DateFromTime,
  MakeDay, MakeDate, TimeClip, LocalTime, UTC). The specification defines
  \<open>YearFromTime(t)\<close> as the largest year whose first day is not after \<open>t\<close>; here it is
  found by a search downwards from a year that is not too small.
\<close>

definition msPerDay :: int where
  "msPerDay = 86400000"

definition Day :: "int \<Rightarrow> int" where
  "Day t = t div msPerDay"

definition TimeWithinDay :: "int \<Rightarrow> int" where
  "TimeWithinDay t = t mod msPerDay"

definition DaysInYear :: "int \<Rightarrow> int" where
  "DaysInYear y =
     (if y mod 4 \<noteq> 0 then 365 else if y mod 100 \<noteq> 0 then 366
      else if y mod 400 \<noteq> 0 then 365 else 366)"

definition DayFromYear :: "int \<Rightarrow> int" where
  "DayFromYear y =
     365 * (y - 1970) + (y - 1969) div 4 - (y - 1901) div 100 + (y - 1601) div 400"

function year_search :: "int \<Rightarrow> int \<Rightarrow> int" where
  "year_search y d = (if DayFromYear y \<le> d then y else year_search (y - 1) d)"
  by pat_completeness auto
termination
proof (relation "measure (\<lambda>(y, d). nat (DayFromYear y - d))")
  show "wf (measure (\<lambda>(y, d). nat (DayFromYear y - d)))"
    by simp
next
  fix y d :: int
  assume "\<not> DayFromYear y \<le> d"
  moreover have "DayFromYear (y - 1) < DayFromYear y"
  proof -
    have a: "(y - 1 - 1969) div 4 \<le> (y - 1969) div 4"
      by (rule zdiv_mono1) simp_all
    have c: "(y - 1 - 1601) div 400 \<le> (y - 1601) div 400"
      by (rule zdiv_mono1) simp_all
    have "(y - 1901) div 100 \<le> (y - 1 - 1901 + 100) div 100"
      by (rule zdiv_mono1) simp_all
    also have "\<dots> = (y - 1 - 1901) div 100 + 1"
      by simp
    finally have b: "(y - 1901) div 100 \<le> (y - 1 - 1901) div 100 + 1" .
    have lin: "365 * (y - 1 - 1970) + p - q + r < 365 * (y - 1970) + a' - b' + c'"
      if "p \<le> a'" and "r \<le> c'" and "b' \<le> q + 1" for p q r a' b' c' :: int
      using that by simp
    show ?thesis
      unfolding DayFromYear_def by (rule lin [OF a c b])
  qed
  ultimately show "((y - 1, d), (y, d)) \<in> measure (\<lambda>(y, d). nat (DayFromYear y - d))"
    by simp
qed

declare year_search.simps [simp del]

definition YearFromTime :: "int \<Rightarrow> int" where
  "YearFromTime t =
     (let d = Day t in year_search (1970 + (if 0 \<le> d then d div 365 else d div 366)) d)"

definition InLeapYear :: "int \<Rightarrow> int" where
  "InLeapYear t = (if DaysInYear (YearFromTime t) = 366 then 1 else 0)"

definition DayWithinYear :: "int \<Rightarrow> int" where
  "DayWithinYear t = Day t - DayFromYear (YearFromTime t)"

text \<open>
  The day within the year on which month \<open>m\<close> (0 to 11) starts, \<open>leap\<close> being 1 in a
  leap year: the bounds of the tables of MonthFromTime and DateFromTime.
\<close>

definition month_start :: "int \<Rightarrow> int \<Rightarrow> int" where
  "month_start m leap =
     (if m = 0 then 0 else if m = 1 then 31 else if m = 2 then 59 + leap
      else if m = 3 then 90 + leap else if m = 4 then 120 + leap
      else if m = 5 then 151 + leap else if m = 6 then 181 + leap
      else if m = 7 then 212 + leap else if m = 8 then 243 + leap
      else if m = 9 then 273 + leap else if m = 10 then 304 + leap
      else 334 + leap)"

definition MonthFromTime :: "int \<Rightarrow> int" where
  "MonthFromTime t =
     (let d = DayWithinYear t; leap = InLeapYear t in
      if d < 31 then 0 else if d < 59 + leap then 1 else if d < 90 + leap then 2
      else if d < 120 + leap then 3 else if d < 151 + leap then 4
      else if d < 181 + leap then 5 else if d < 212 + leap then 6
      else if d < 243 + leap then 7 else if d < 273 + leap then 8
      else if d < 304 + leap then 9 else if d < 334 + leap then 10 else 11)"

definition DateFromTime :: "int \<Rightarrow> int" where
  "DateFromTime t = DayWithinYear t - month_start (MonthFromTime t) (InLeapYear t) + 1"

definition MakeDay :: "int \<Rightarrow> int \<Rightarrow> int \<Rightarrow> int" where
  "MakeDay year month date =
     (let ym = year + month div 12;
          mn = month mod 12
      in DayFromYear ym + month_start mn (if DaysInYear ym = 366 then 1 else 0) + date - 1)"

definition MakeDate :: "int \<Rightarrow> int \<Rightarrow> int" where
  "MakeDate day time = day * msPerDay + time"

text \<open>\<open>None\<close> is the time value NaN of an invalid \<open>Date\<close>.\<close>

definition TimeClip :: "int \<Rightarrow> int option" where
  "TimeClip t = (if \<bar>t\<bar> > 8640000000000000 then None else Some t)"

definition LocalTime :: "(int \<Rightarrow> bool \<Rightarrow> int) \<Rightarrow> int \<Rightarrow> int" where
  "LocalTime tz t = t + tz t True"

definition UTC :: "(int \<Rightarrow> bool \<Rightarrow> int) \<Rightarrow> int \<Rightarrow> int" where
  "UTC tz t = t - tz t False"

text \<open>
  The methods of \<open>Date.prototype\<close> the program calls, on a valid time value \<open>t\<close> in
  the time zone \<open>tz\<close>: the getters and setters work in local time, \<open>toISOString\<close>
  in UTC. A setter converts to local time with the offset in force at \<open>t\<close> and back
  with the offset in force at the new local time.
\<close>

definition getDate :: "(int \<Rightarrow> bool \<Rightarrow> int) \<Rightarrow> int \<Rightarrow> int" where
  "getDate tz t = DateFromTime (LocalTime tz t)"

definition getMonth :: "(int \<Rightarrow> bool \<Rightarrow> int) \<Rightarrow> int \<Rightarrow> int" where
  "getMonth tz t = MonthFromTime (LocalTime tz t)"

definition setDate :: "(int \<Rightarrow> bool \<Rightarrow> int) \<Rightarrow> int \<Rightarrow> int \<Rightarrow> int option" where
  "setDate tz t dt =
     (let lt = LocalTime tz t;
          newDate = MakeDate (MakeDay (YearFromTime lt) (MonthFromTime lt) dt) (TimeWithinDay lt)
      in TimeClip (UTC tz newDate))"

definition setMonth :: "(int \<Rightarrow> bool \<Rightarrow> int) \<Rightarrow> int \<Rightarrow> int \<Rightarrow> int option" where
  "setMonth tz t m =
     (let lt = LocalTime tz t;
          newDate = MakeDate (MakeDay (YearFromTime lt) m (DateFromTime lt)) (TimeWithinDay lt)
      in TimeClip (UTC tz newDate))"

definition iso_year :: "int \<Rightarrow> string" where
  "iso_year y =
     (if 0 \<le> y \<and> y \<le> 9999 then digits 4 (nat y)
      else (if y < 0 then ''-'' else ''+'') @ digits 6 (nat \<bar>y\<bar>))"

definition iso_date :: "int \<Rightarrow> string" where
  "iso_date t =
     iso_year (YearFromTime t) @ ''-'' @ digits 2 (nat (MonthFromTime t + 1))
       @ ''-'' @ digits 2 (nat (DateFromTime t))"

definition iso_time :: "int \<Rightarrow> string" where
  "iso_time t =
     (let ms = TimeWithinDay t in
      digits 2 (nat (ms div 3600000)) @ '':'' @ digits 2 (nat (ms div 60000 mod 60))
        @ '':'' @ digits 2 (nat (ms div 1000 mod 60)) @ ''.'' @ digits 3 (nat (ms mod 1000))
        @ ''Z'')"

definition toISOString :: "int option \<Rightarrow> thrown + string" where
  "toISOString d =
     (case d of
        None \<Rightarrow> Inl (JsError ''RangeError'' ''Invalid time value'')
      | Some t \<Rightarrow> Inr (iso_date t @ ''T'' @ iso_time t))"

text \<open>\<open>s.split('T')[0]\<close>: the text before the first \<open>T\<close>.\<close>

definition split_T_0 :: "string \<Rightarrow> string" where
  "split_T_0 s = takeWhile (\<lambda>c. c \<noteq> CHR ''T'') s"

definition and_then :: "thrown + 'a \<Rightarrow> ('a \<Rightarrow> thrown + 'b) \<Rightarrow> thrown + 'b" where
  "and_then r f = (case r of Inl err \<Rightarrow> Inl err | Inr x \<Rightarrow> f x)"

definition formatted :: "int option \<Rightarrow> thrown + string" where
  "formatted d = and_then (toISOString d) (\<lambda>s. Inr (split_T_0 s))"

section \<open>SQL synthesizer (lib/openai.ts)\<close>

abbreviation nl :: string where
  "nl \<equiv> [CHR 0x0A]"

abbreviation apostrophe :: string where
  "apostrophe \<equiv> [CHR 0x27]"

abbreviation dq :: string where
  "dq \<equiv> [CHR 0x22]"

text \<open>The template literal of \<open>handleEnrollmentQuery\<close>, before \<open>trim()\<close>.\<close>

definition enrollment_template :: "string \<Rightarrow> string \<Rightarrow> string \<Rightarrow> string" where
  "enrollment_template startDate formattedToday isActive =
     nl @ ''    SELECT * FROM enrollments '' @ nl
     @ ''    WHERE enrollment_date >= '' @ apostrophe @ startDate @ apostrophe @ '' '' @ nl
     @ ''    AND enrollment_date <= '' @ apostrophe @ formattedToday @ apostrophe @ nl
     @ ''    '' @ isActive @ nl
     @ ''    ORDER BY enrollment_date DESC'' @ nl @ ''  ''"

definition handleEnrollmentQuery :: "env \<Rightarrow> string \<Rightarrow> thrown + string" where
  "handleEnrollmentQuery e query =
     (let today = clock_now e;
          tz = LocalTZA e;
          lastWeek = setDate tz today (getDate tz today - 7)
      in and_then (formatted lastWeek) (\<lambda>formattedLastWeek.
         let lastMonth = setMonth tz today (getMonth tz today - 1)
         in and_then (formatted lastMonth) (\<lambda>formattedLastMonth.
            let lastQuarter = setMonth tz today (getMonth tz today - 3)
            in and_then (formatted lastQuarter) (\<lambda>formattedLastQuarter.
               and_then (formatted (Some today)) (\<lambda>formattedToday.
                 let startDate =
                       (if str_includes (toLowerCase query) ''month'' then formattedLastMonth
                        else if str_includes (toLowerCase query) ''quarter''
                        then formattedLastQuarter
                        else formattedLastWeek);
                     isActive =
                       (if str_includes (toLowerCase query) ''active''
                        then ''AND status = '' @ apostrophe @ ''active'' @ apostrophe
                        else '''')
                 in Inr (trim (enrollment_template startDate formattedToday isActive)))))))"

definition formatSchemaForPrompt :: "DatabaseSchema \<Rightarrow> string" where
  "formatSchemaForPrompt schema =
     join (nl @ nl)
       (map (\<lambda>table.
               ''Table: '' @ template_string (tbl_name table) @ nl @ ''Columns: ''
               @ join '', ''
                   (map (\<lambda>col. template_string (col_name col) @ '' (''
                                 @ template_string (col_dataType col) @ '')'')
                        (tbl_columns table)))
            (tables schema))"

text \<open>
  \<open>sql.replace(/^```sql\s*/i, "").replace(/\s*```$/i, "")\<close>: an opening fence with the
  white space after it, then a closing fence at the very end with the white space
  before it.
\<close>

definition strip_fences :: "string \<Rightarrow> string" where
  "strip_fences sql =
     (let s1 = (if toLowerCase (take 6 sql) = ''```sql''
                then dropWhile is_space (drop 6 sql) else sql)
      in if suffix ''```'' s1
         then rev (dropWhile is_space (rev (take (length s1 - 3) s1)))
         else s1)"

definition sql_request :: "env \<Rightarrow> string \<Rightarrow> string \<Rightarrow> string \<Rightarrow> chat_request" where
  "sql_request e schemaInfo formattedCurrentDate query =
     \<lparr>cr_model = DEFAULT_MODEL e,
      cr_system = ''You are a SQL expert that converts natural language to SQL queries.'',
      cr_user = SqlPrompt schemaInfo formattedCurrentDate query,
      cr_temperature_tenths = 1,
      cr_max_tokens = 500,
      cr_json_object = False\<rparr>"

definition is_enrollment_query :: "string \<Rightarrow> bool" where
  "is_enrollment_query query =
     (str_includes (toLowerCase query) ''enrollment''
      \<and> (str_includes (toLowerCase query) ''week''
         \<or> str_includes (toLowerCase query) ''month''
         \<or> str_includes (toLowerCase query) ''quarter''))"

text \<open>
  \<open>generateSQLFromNaturalLanguage\<close> takes and returns the number of completion calls
  made so far, as \<open>generateVisualizationFromData\<close> does.
\<close>

definition generateSQLFromNaturalLanguage ::
  "env \<Rightarrow> nat \<Rightarrow> string \<Rightarrow> DatabaseSchema \<Rightarrow> (thrown + string) \<times> nat" where
  "generateSQLFromNaturalLanguage e calls query schema =
     (let schemaInfo = formatSchemaForPrompt schema in
      if is_enrollment_query query then (handleEnrollmentQuery e query, calls)
      else
        (case formatted (Some (clock_now e)) of
           Inl err \<Rightarrow> (Inl err, calls)
         | Inr formattedCurrentDate \<Rightarrow>
             (case chat_create e (sql_request e schemaInfo formattedCurrentDate query) of
                Inl error \<Rightarrow>
                  (Inl (JsError ''Error'' (''OpenAI API error: '' @ error_message error)),
                   calls + 1)
              | Inr content \<Rightarrow>
                  (let sql = (case content of None \<Rightarrow> '''' | Some c \<Rightarrow> trim c)
                   in (Inr (strip_fences sql), calls + 1)))))"

section \<open>Database connector (lib/database/postgresql.ts, lib/database/factory.ts)\<close>

text \<open>
  The state of a \<open>PostgreSQLConnector\<close>: its \<open>client\<close> field, and counters of what it
  has done so far: \<open>client.release()\<close> calls, \<open>pool.end()\<close> calls and invocations of
  \<open>disconnect\<close>. Every operation returns its outcome (\<open>Inl\<close>: the promise rejects)
  together with the connector's new state.
\<close>

datatype PoolClient = PoolClient

record connector =
  client :: "PoolClient option"
  release_calls :: nat
  end_calls :: nat
  disconnect_calls :: nat

definition createDatabaseConnector :: "env \<Rightarrow> thrown + connector" where
  "createDatabaseConnector e =
     (let databaseType = (case DATABASE_TYPE e of
                            None \<Rightarrow> ''postgresql''
                          | Some t \<Rightarrow> if t = [] then ''postgresql'' else t);
          connectionString = DATABASE_URL e
      in if connectionString = None \<or> connectionString = Some []
         then Inl (JsError ''Error'' ''DATABASE_URL environment variable is required'')
         else if toLowerCase databaseType = ''postgresql''
         then Inr \<lparr>client = None, release_calls = 0, end_calls = 0, disconnect_calls = 0\<rparr>
         else Inl (JsError ''Error'' (''Unsupported database type: '' @ databaseType)))"

definition connect :: "env \<Rightarrow> connector \<Rightarrow> (thrown + unit) \<times> connector" where
  "connect e c =
     (case pool_connect e of
        None \<Rightarrow> (Inr (), c\<lparr>client := Some PoolClient\<rparr>)
      | Some error \<Rightarrow>
          (Inl (JsError ''DatabaseError''
                  (''Failed to connect to PostgreSQL: '' @ error_message error)), c))"

definition disconnect :: "env \<Rightarrow> connector \<Rightarrow> (thrown + unit) \<times> connector" where
  "disconnect e c =
     (let c0 = c\<lparr>disconnect_calls := disconnect_calls c + 1\<rparr>;
          c1 = (if client c0 \<noteq> None
                then c0\<lparr>release_calls := release_calls c0 + 1, client := None\<rparr>
                else c0);
          c2 = c1\<lparr>end_calls := end_calls c1 + 1\<rparr>
      in case pool_end e (end_calls c1) of
           None \<Rightarrow> (Inr (), c2)
         | Some error \<Rightarrow> (Inl error, c2))"

definition isConnected :: "connector \<Rightarrow> bool" where
  "isConnected c = (client c \<noteq> None)"

text \<open>The catalog queries of \<open>getSchema\<close> (their layout in the source left aside).\<close>

definition tables_sql :: string where
  "tables_sql =
     ''SELECT table_name FROM information_schema.tables WHERE table_schema = ''
     @ apostrophe @ ''public'' @ apostrophe"

definition columns_sql :: string where
  "columns_sql =
     ''SELECT column_name, data_type FROM information_schema.columns WHERE table_schema = ''
     @ apostrophe @ ''public'' @ apostrophe @ '' AND table_name = $1''"

definition row_prop :: "row \<Rightarrow> string \<Rightarrow> jsval" where
  "row_prop r k = (case map_of r k of Some v \<Rightarrow> v | None \<Rightarrow> Undefined)"

definition rows_of :: "pg_result \<Rightarrow> thrown + row list" where
  "rows_of result =
     (case pg_rows result of
        None \<Rightarrow> Inl (JsError ''TypeError'' ''Cannot read properties of undefined'')
      | Some rs \<Rightarrow> Inr rs)"

text \<open>The \<open>for (const tableRow of tablesResult.rows)\<close> loop of \<open>getSchema\<close>.\<close>

fun schema_loop :: "env \<Rightarrow> row list \<Rightarrow> TableSchema list \<Rightarrow> thrown + TableSchema list" where
  "schema_loop e [] acc = Inr acc"
| "schema_loop e (tableRow # rest) acc =
     (let tableName = row_prop tableRow ''table_name'' in
      case and_then (client_query e columns_sql [tableName]) rows_of of
        Inl err \<Rightarrow> Inl err
      | Inr columnRows \<Rightarrow>
          schema_loop e rest
            (acc @ [\<lparr>tbl_name = tableName,
                      tbl_columns = map (\<lambda>r. \<lparr>col_name = row_prop r ''column_name'',
                                                col_dataType = row_prop r ''data_type''\<rparr>)
                                        columnRows\<rparr>]))"

definition auto_connect :: "env \<Rightarrow> connector \<Rightarrow> (thrown + unit) \<times> connector" where
  "auto_connect e c = (if client c = None then connect e c else (Inr (), c))"

definition getSchema :: "env \<Rightarrow> connector \<Rightarrow> (thrown + DatabaseSchema) \<times> connector" where
  "getSchema e c =
     (case auto_connect e c of
        (Inl err, c1) \<Rightarrow> (Inl err, c1)
      | (Inr u, c1) \<Rightarrow>
          (case and_then (and_then (client_query e tables_sql []) rows_of)
                         (\<lambda>tableRows. schema_loop e tableRows []) of
             Inl error \<Rightarrow>
               (Inl (JsError ''DatabaseError''
                       (''Failed to get schema: '' @ error_message error)), c1)
           | Inr tableList \<Rightarrow> (Inr \<lparr>tables = tableList\<rparr>, c1)))"

definition executeQuery ::
  "env \<Rightarrow> connector \<Rightarrow> string \<Rightarrow> (thrown + QueryResult) \<times> connector" where
  "executeQuery e c sql =
     (case auto_connect e c of
        (Inl err, c1) \<Rightarrow> (Inl err, c1)
      | (Inr u, c1) \<Rightarrow>
          (case client_query e sql [] of
             Inl error \<Rightarrow>
               (Inl (JsError ''QueryError''
                       (''Query execution failed: '' @ error_message error)), c1)
           | Inr result \<Rightarrow>
               (case pg_rows result of
                  Some rs \<Rightarrow> (Inr \<lparr>qr_columns = pg_fields result, qr_rows = rs\<rparr>, c1)
                | None \<Rightarrow>
                    (Inr \<lparr>qr_columns = [],
                          qr_rows = [[(''affectedRows'', pg_rowCount result)]]\<rparr>, c1))))"

section \<open>Query orchestrator: \<open>processQuery\<close> (lib/query-processor.ts)\<close>

record QueryRequest =
  req_query :: string
  req_dataSource :: "string option"

datatype response_data = TableData TableResult | GraphData GraphResult | EmptyData

record QueryResponse =
  resultType :: result_type
  resp_data :: response_data
  resp_sql :: "string option"
  resp_message :: "string option"
  debug_executedQuery :: string
  debug_rowCount :: nat

text \<open>
  The body of the \<open>try\<close> block: its outcome (\<open>Inl\<close>: what it throws), the connector
  afterwards and the number of completion calls made.
\<close>

definition try_block ::
  "env \<Rightarrow> string \<Rightarrow> connector \<Rightarrow> (thrown + QueryResponse) \<times> connector \<times> nat" where
  "try_block e query db =
     (case connect e db of
        (Inl err, db1) \<Rightarrow> (Inl err, db1, 0)
      | (Inr u, db1) \<Rightarrow>
          (case getSchema e db1 of
             (Inl err, db2) \<Rightarrow> (Inl err, db2, 0)
           | (Inr schema, db2) \<Rightarrow>
               (let resultType = determineResultType query in
                case generateSQLFromNaturalLanguage e 0 query schema of
                  (Inl err, calls) \<Rightarrow> (Inl err, db2, calls)
                | (Inr sql, calls) \<Rightarrow>
                    (case executeQuery e db2 sql of
                       (Inl err, db3) \<Rightarrow> (Inl err, db3, calls)
                     | (Inr queryResult, db3) \<Rightarrow>
                         (if resultType = Graph
                          then (case generateVisualizationFromData e calls query queryResult of
                                  (formattedResult, calls') \<Rightarrow>
                                    (Inr \<lparr>resultType = resultType,
                                          resp_data = GraphData formattedResult,
                                          resp_sql = Some sql,
                                          resp_message = None,
                                          debug_executedQuery = sql,
                                          debug_rowCount = length (qr_rows queryResult)\<rparr>,
                                     db3, calls'))
                          else (Inr \<lparr>resultType = resultType,
                                     resp_data = TableData (formatForTable queryResult),
                                     resp_sql = Some sql,
                                     resp_message = None,
                                     debug_executedQuery = sql,
                                     debug_rowCount = length (qr_rows queryResult)\<rparr>,
                                db3, calls))))))"

text \<open>The \<open>catch\<close> block: the message chosen from the lower-cased \<open>String(error)\<close>.\<close>

definition errorMessage :: "thrown \<Rightarrow> string" where
  "errorMessage error =
     (let errorStr = toLowerCase (String_of_error error) in
      if str_includes errorStr ''syntax error'' then ''SQL syntax error''
      else if str_includes errorStr ''permission denied''
              \<or> str_includes errorStr ''authentication failed''
      then ''Database access error''
      else if str_includes errorStr ''timeout'' then ''Database query timeout''
      else if str_includes errorStr ''relation'' \<and> str_includes errorStr ''does not exist''
      then ''Requested table does not exist''
      else if str_includes errorStr ''column'' \<and> str_includes errorStr ''does not exist''
      then ''Requested column does not exist''
      else ''Database query failed'')"

definition error_response :: "thrown \<Rightarrow> QueryResponse" where
  "error_response error =
     \<lparr>resultType = Table,
      resp_data = EmptyData,
      resp_sql = None,
      resp_message = Some (errorMessage error),
      debug_executedQuery = ''Error executing query'',
      debug_rowCount = 0\<rparr>"

text \<open>
  \<open>processQuery\<close>: what it returns or throws, the connector it created (\<open>None\<close> when
  \<open>createDatabaseConnector\<close>, which is called before the \<open>try\<close>, throws) in its final
  state, and the number of completion calls. An error thrown by \<open>disconnect\<close> in the
  \<open>finally\<close> block replaces the response. The repository also holds an earlier copy
  of this module whose \<open>catch\<close> block passes \<open>error.message\<close> on unchanged; the model
  follows the current module, the one the test suite exercises.
\<close>

definition processQuery ::
  "env \<Rightarrow> QueryRequest \<Rightarrow> (thrown + QueryResponse) \<times> connector option \<times> nat" where
  "processQuery e request =
     (let query = req_query request in
      case createDatabaseConnector e of
        Inl err \<Rightarrow> (Inl err, None, 0)
      | Inr db \<Rightarrow>
          (case try_block e query db of
             (outcome, db1, calls) \<Rightarrow>
               (let response = (case outcome of
                                  Inr r \<Rightarrow> r
                                | Inl error \<Rightarrow> error_response error)
                in if isConnected db1
                   then (case disconnect e db1 of
                           (Inl err, db2) \<Rightarrow> (Inl err, Some db2, calls)
                         | (Inr u, db2) \<Rightarrow> (Inr response, Some db2, calls))
                   else (Inr response, Some db1, calls))))"

section \<open>A sample environment\<close>

text \<open>
  A concrete environment for evaluating the program: the clock reads
  2024-03-15T12:00:00Z in a UTC zone; the database has one table \<open>users\<close> and answers
  every other statement with two rows; the completion service answers a SQL request
  with a fixed statement and fails on a visualization request; the pool behaves as the
  \<open>pg\<close> pool does, whose \<open>end()\<close> rejects when called a second time.
\<close>

definition pg_pool_end :: "nat \<Rightarrow> thrown option" where
  "pg_pool_end earlier =
     (if earlier = 0 then None
      else Some (JsError ''Error'' ''Called end on pool more than once''))"

definition sample_query :: "string \<Rightarrow> jsval list \<Rightarrow> thrown + pg_result" where
  "sample_query sql params =
     (if sql = tables_sql
      then Inr \<lparr>pg_rows = Some [[(''table_name'', JStr ''users'')]],
                pg_fields = [''table_name''], pg_rowCount = JNum 1\<rparr>
      else if sql = columns_sql
      then Inr \<lparr>pg_rows = Some [[(''column_name'', JStr ''id''), (''data_type'', JStr ''integer'')],
                                 [(''column_name'', JStr ''name''), (''data_type'', JStr ''text'')]],
                pg_fields = [''column_name'', ''data_type''], pg_rowCount = JNum 2\<rparr>
      else Inr \<lparr>pg_rows = Some [[(''id'', JNum 1), (''name'', JStr ''Ada'')],
                                 [(''id'', JNum 2), (''name'', JStr ''Grace'')]],
                pg_fields = [''id'', ''name''], pg_rowCount = JNum 2\<rparr>)"

definition sample_chat :: "chat_request \<Rightarrow> thrown + string option" where
  "sample_chat request =
     (case cr_user request of
        SqlPrompt schemaInfo date query \<Rightarrow> Inr (Some ''SELECT id, name FROM users'')
      | VizPrompt query description sample \<Rightarrow> Inl (JsError ''Error'' ''API rate limit exceeded''))"

definition sample_env :: env where
  "sample_env =
     \<lparr>clock_now = 1710504000000,
      LocalTZA = (\<lambda>t isUTC. 0),
      OPENAI_MODEL = None,
      DATABASE_TYPE = None,
      DATABASE_URL = Some ''postgresql://app@db:5432/school'',
      chat_create = sample_chat,
      JSON_parse = (\<lambda>s. Inl (JsError ''SyntaxError'' ''Unexpected token'')),
      pool_connect = None,
      client_query = sample_query,
      pool_end = pg_pool_end\<rparr>"

text \<open>The same database, except that it rejects every statement other than the catalog
  queries with the given error.\<close>

definition rejecting_query :: "thrown \<Rightarrow> string \<Rightarrow> jsval list \<Rightarrow> thrown + pg_result" where
  "rejecting_query error sql params =
     (if sql = tables_sql \<or> sql = columns_sql then sample_query sql params else Inl error)"

text \<open>A reply of the completion service to a visualization request, and its parse.\<close>

definition sample_reply :: string where
  "sample_reply =
     ''{'' @ dq @ ''chartType'' @ dq @ '':'' @ dq @ ''bar'' @ dq @ '','' @ dq @ ''data''
     @ dq @ '':[{'' @ dq @ ''month'' @ dq @ '':'' @ dq @ ''Jan'' @ dq @ '','' @ dq
     @ ''total'' @ dq @ '':3}],'' @ dq @ ''series'' @ dq @ '':[{'' @ dq @ ''dataKey'' @ dq
     @ '':'' @ dq @ ''revenue'' @ dq @ ''}]}''"

definition sample_reply_parsed :: jsval where
  "sample_reply_parsed =
     JObj [(''chartType'', JStr ''bar''),
           (''data'', JArr [JObj [(''month'', JStr ''Jan''), (''total'', JNum 3)]]),
           (''series'', JArr [JObj [(''dataKey'', JStr ''revenue'')]])]"

definition replying_env :: env where
  "replying_env =
     sample_env\<lparr>chat_create := (\<lambda>request. Inr (Some sample_reply)),
                JSON_parse := (\<lambda>s. if s = sample_reply then Inr sample_reply_parsed
                                    else Inl (JsError ''SyntaxError'' ''Unexpected token''))\<rparr>"

text \<open>
  The zone America/New_York in 2024: four hours behind UTC from 2024-03-10T07:00Z to
  2024-11-03T06:00Z (in local time: from 03:00 on March 10 to 02:00 on November 3),
  five hours behind otherwise. In the second environment the clock reads
  2024-03-14T23:30Z there, four days after daylight saving began.
\<close>

definition new_york_2024 :: "int \<Rightarrow> bool \<Rightarrow> int" where
  "new_york_2024 t isUTC =
     (if isUTC
      then (if 1710054000000 \<le> t \<and> t < 1730613600000 then - 14400000 else - 18000000)
      else (if 1710039600000 \<le> t \<and> t < 1730599200000 then - 14400000 else - 18000000))"

definition new_york_env :: env where
  "new_york_env = sample_env\<lparr>clock_now := 1710459000000, LocalTZA := new_york_2024\<rparr>"

section \<open>Facts about strings\<close>

lemma str_includes_sublist: "str_includes s k = sublist k s"
  by (induction s) (simp_all add: sublist_Cons_right)

lemma str_includes_trans:
  "str_includes s k \<Longrightarrow> str_includes k j \<Longrightarrow> str_includes s j"
  unfolding str_includes_sublist by (rule sublist_order.order.trans)

lemma str_includes_toLowerCase:
  "str_includes s k \<Longrightarrow> str_includes (toLowerCase s) (toLowerCase k)"
  unfolding str_includes_sublist toLowerCase_def by (rule map_mono_sublist)

section \<open>The intent classifier\<close>

lemma keyword_loop_Graph:
  "keyword_loop q ks = Graph \<longleftrightarrow> (\<exists>k \<in> set ks. str_includes q k)"
  by (induction ks) auto

lemma keyword_loop_Table:
  "keyword_loop q ks = Table \<longleftrightarrow> \<not> (\<exists>k \<in> set ks. str_includes q k)"
  by (induction ks) auto

text \<open>
  Claim C5. \<open>determineResultType\<close> is a function of the query alone; it returns
  \<open>"graph"\<close> exactly when the lower-cased query contains one of the fixed keywords
  (among them "trend", "chart", "compare", "distribution", "week by week" and
  "pie chart"), and \<open>"table"\<close> exactly when it contains none of them.
\<close>

theorem determineResultType_iff_keyword:
  "(determineResultType query = Graph \<longleftrightarrow>
      (\<exists>k \<in> set graphKeywords. str_includes (toLowerCase query) k))
   \<and> (determineResultType query = Table \<longleftrightarrow>
      \<not> (\<exists>k \<in> set graphKeywords. str_includes (toLowerCase query) k))
   \<and> set [''trend'', ''chart'', ''compare'', ''distribution'', ''week by week'', ''pie chart'']
        \<subseteq> set graphKeywords"
proof -
  have "set [''trend'', ''chart'', ''compare'', ''distribution'', ''week by week'', ''pie chart'']
        \<subseteq> set graphKeywords"
    by (simp add: graphKeywords_def)
  then show ?thesis
    unfolding determineResultType_def keyword_loop_Graph keyword_loop_Table by blast
qed

section \<open>The visualization synthesizer\<close>

text \<open>
  Claim C3. On every path of \<open>generateVisualizationFromData\<close> (the mapped reply of the
  completion service, each way into the fallback heuristic, and the early return for an
  empty result) the \<open>rawData\<close> of the returned \<open>GraphResult\<close> is the sequence of rows it
  was given, whatever the service and \<open>JSON.parse\<close> return.
\<close>

theorem rawData_is_input_rows:
  "gr_rawData (fst (generateVisualizationFromData e calls query queryResult))
     = rows_val (qr_rows queryResult)"
  by (auto simp: generateVisualizationFromData_def Let_def no_data_result_def rows_val_def
      fallbackVisualization_def map_spec_def split: sum.splits option.splits if_splits)

text \<open>
  Claim C6. For a \<open>QueryResult\<close> with no rows, whatever its columns, the result is the
  fixed \<open>GraphResult\<close> with chart type "none", title "No Data Available" and empty
  \<open>labels\<close>, \<open>values\<close> and \<open>rawData\<close>; the completion service is not called: the count
  of calls is unchanged and the result does not depend on the service.
\<close>

theorem no_rows_no_completion_call:
  "generateVisualizationFromData e calls query \<lparr>qr_columns = columns, qr_rows = []\<rparr>
     = (no_data_result, calls)
   \<and> gr_chartType no_data_result = JStr ''none''
   \<and> gr_title no_data_result = JStr ''No Data Available''
   \<and> gr_labels no_data_result = JArr []
   \<and> gr_values no_data_result = JArr []
   \<and> gr_rawData no_data_result = JArr []"
  by (simp add: generateVisualizationFromData_def no_data_result_def)

section \<open>The fallback heuristic\<close>

lemma find_filter_at_index:
  "at_index (filter P xs) 0 = (case find P xs of Some c \<Rightarrow> JStr c | None \<Rightarrow> Undefined)"
  by (induction xs) (auto simp: at_index_def)

lemma filter_empty_find: "(0 < length (filter P xs)) = (find P xs \<noteq> None)"
  by (induction xs) auto

lemma filter_empty_list_ex: "(0 < length (filter P xs)) = list_ex P xs"
  by (induction xs) auto

lemma at_index_0_or_else:
  "or_else (at_index cols 0) (JStr ''category'') =
     (case cols of [] \<Rightarrow> JStr ''category''
      | c0 # rest \<Rightarrow> if c0 = [] then JStr ''category'' else JStr c0)"
  by (simp add: or_else_def at_index_def split: list.splits)

lemma dataField_cases:
  "(if 1 < length cols then at_index cols 1 else at_index cols 0) =
     (case cols of [] \<Rightarrow> Undefined | [c0] \<Rightarrow> JStr c0 | c0 # c1 # rest \<Rightarrow> JStr c1)"
  by (simp add: at_index_def split: list.splits)

text \<open>
  Claim C7, as the code has it. \<open>fallbackVisualization\<close> is a function of the
  \<open>QueryResult\<close> alone (no clock, no service, no state), so two calls on the same
  result agree. The chart type is "line" when some column name contains "date",
  "time", "month" or "year" (case-insensitive) and "bar" otherwise; the category axis
  is the first such column when there is one, otherwise the first column, or
  "category" when there is no first column or its name is empty; the value column is
  the second column when there are two, the only column when there is one, and
  \<open>undefined\<close> when there is none; \<open>series\<close> is exactly one \<open>SeriesConfig\<close> whose
  \<open>dataKey\<close> and \<open>name\<close> are the value column.
\<close>

theorem fallbackVisualization_axes:
  "gr_chartType (fallbackVisualization qr) =
      JStr (if list_ex is_date_column (qr_columns qr) then ''line'' else ''bar'')
   \<and> gr_xAxisKey (fallbackVisualization qr) =
      (case find is_date_column (qr_columns qr) of
         Some c \<Rightarrow> JStr c
       | None \<Rightarrow> (case qr_columns qr of
                    [] \<Rightarrow> JStr ''category''
                  | c0 # rest \<Rightarrow> if c0 = [] then JStr ''category'' else JStr c0))
   \<and> gr_yAxis (fallbackVisualization qr) =
      (case qr_columns qr of [] \<Rightarrow> Undefined | [c0] \<Rightarrow> JStr c0 | c0 # c1 # rest \<Rightarrow> JStr c1)
   \<and> gr_series (fallbackVisualization qr) =
      JArr [JObj [(''dataKey'', gr_yAxis (fallbackVisualization qr)),
                  (''name'', gr_yAxis (fallbackVisualization qr)),
                  (''color'', JStr ''#8884d8'')]]"
proof -
  have ct: "gr_chartType (fallbackVisualization qr) =
      JStr (if list_ex is_date_column (qr_columns qr) then ''line'' else ''bar'')"
    by (simp add: fallbackVisualization_def Let_def filter_empty_list_ex del: length_greater_0_conv)
  have "gr_xAxisKey (fallbackVisualization qr) =
      (if find is_date_column (qr_columns qr) \<noteq> None
       then at_index (filter is_date_column (qr_columns qr)) 0
       else or_else (at_index (qr_columns qr) 0) (JStr ''category''))"
    by (simp add: fallbackVisualization_def Let_def filter_empty_find del: length_greater_0_conv)
  then have x: "gr_xAxisKey (fallbackVisualization qr) =
      (case find is_date_column (qr_columns qr) of
         Some c \<Rightarrow> JStr c
       | None \<Rightarrow> (case qr_columns qr of
                    [] \<Rightarrow> JStr ''category''
                  | c0 # rest \<Rightarrow> if c0 = [] then JStr ''category'' else JStr c0))"
    by (simp add: find_filter_at_index at_index_0_or_else split: option.splits)
  have y: "gr_yAxis (fallbackVisualization qr) =
      (case qr_columns qr of [] \<Rightarrow> Undefined | [c0] \<Rightarrow> JStr c0 | c0 # c1 # rest \<Rightarrow> JStr c1)"
    using dataField_cases [of "qr_columns qr"]
    by (simp add: fallbackVisualization_def Let_def)
  have s: "gr_series (fallbackVisualization qr) =
      JArr [JObj [(''dataKey'', gr_yAxis (fallbackVisualization qr)),
                  (''name'', gr_yAxis (fallbackVisualization qr)),
                  (''color'', JStr ''#8884d8'')]]"
    by (simp add: fallbackVisualization_def Let_def)
  from ct x y s show ?thesis by blast
qed

text \<open>
  A result with the single column \<open>total\<close> (as \<open>SELECT COUNT(*) AS total\<close> gives): no
  column name looks like a date, there is no second column, and the only column is
  both the category axis and the value axis, so the axes are not the first two columns.
\<close>

theorem fallback_single_column_counterexample:
  "filter is_date_column (qr_columns \<lparr>qr_columns = [''total''], qr_rows = [[(''total'', JNum 5)]]\<rparr>) = []
   \<and> at_index (qr_columns \<lparr>qr_columns = [''total''], qr_rows = [[(''total'', JNum 5)]]\<rparr>) 1 = Undefined
   \<and> gr_xAxisKey (fallbackVisualization \<lparr>qr_columns = [''total''], qr_rows = [[(''total'', JNum 5)]]\<rparr>)
       = JStr ''total''
   \<and> gr_yAxis (fallbackVisualization \<lparr>qr_columns = [''total''], qr_rows = [[(''total'', JNum 5)]]\<rparr>)
       = JStr ''total''"
  by (simp add: fallbackVisualization_def Let_def at_index_def or_else_def is_date_column_def
      toLowerCase_def lower_char_def)

section \<open>The series invariant\<close>

lemma dataField_in_columns:
  assumes "cols \<noteq> []"
  shows "\<exists>k. (if 1 < length cols then at_index cols 1 else at_index cols 0) = JStr k
             \<and> k \<in> set cols"
proof (cases cols)
  case Nil
  with assms show ?thesis by simp
next
  case (Cons c0 rest)
  then show ?thesis by (cases rest) (simp_all add: at_index_def)
qed

lemma fallback_series_keys:
  assumes "qr_columns qr \<noteq> []"
    and "\<forall>r \<in> set (qr_rows qr). set (qr_columns qr) \<subseteq> fst ` set r"
  shows "series_keys_present (fallbackVisualization qr)"
proof -
  obtain k where k: "(if 1 < length (qr_columns qr) then at_index (qr_columns qr) 1
                      else at_index (qr_columns qr) 0) = JStr k"
     and kin: "k \<in> set (qr_columns qr)"
    using dataField_in_columns [OF assms(1)] by blast
  have "\<forall>r \<in> set (qr_rows qr). has_key (JObj r) (JStr k)"
    using assms(2) kin by auto
  then show ?thesis
    using k by (simp add: series_keys_present_def fallbackVisualization_def Let_def spec_prop_def
        rows_val_def list_all_iff del: has_key.simps)
qed

lemma no_data_series_keys: "series_keys_present no_data_result"
  by (simp add: series_keys_present_def no_data_result_def)

lemma generateVisualization_paths:
  "fst (generateVisualizationFromData e calls query qr) = no_data_result
   \<or> fst (generateVisualizationFromData e calls query qr) = fallbackVisualization qr
   \<or> (\<exists>c spec. chat_create e (viz_request e query qr) = Inr (Some c) \<and> JSON_parse e c = Inr spec
        \<and> map_spec spec (qr_rows qr) = Some (fst (generateVisualizationFromData e calls query qr)))"
  by (auto simp: generateVisualizationFromData_def Let_def split: sum.splits option.splits)

lemma map_spec_verbatim:
  "map_spec spec rows = Some g \<Longrightarrow>
     gr_series g = or_else (spec_prop spec ''series'') (JArr [])
     \<and> gr_processedData g = spec_prop spec ''data''"
  by (auto simp: map_spec_def split: sum.splits if_splits)

text \<open>
  Claim C9, as the code has it. The fallback heuristic keeps the invariant for a
  \<open>QueryResult\<close> that has at least one column and whose every column name is a key of
  every row; the result for no rows has no series at all. Every \<open>GraphResult\<close> of
  \<open>generateVisualizationFromData\<close> is one of these two or the mapped reply of the
  completion service, and a mapped reply carries the reply's \<open>series\<close> and \<open>data\<close>
  as they came, unchecked against each other.
\<close>

theorem series_keys_present_paths:
  "(qr_columns qr \<noteq> [] \<and> (\<forall>r \<in> set (qr_rows qr). set (qr_columns qr) \<subseteq> fst ` set r)
      \<longrightarrow> series_keys_present (fallbackVisualization qr))
   \<and> series_keys_present no_data_result
   \<and> (fst (generateVisualizationFromData e calls query qr) = no_data_result
      \<or> fst (generateVisualizationFromData e calls query qr) = fallbackVisualization qr
      \<or> (\<exists>c spec. chat_create e (viz_request e query qr) = Inr (Some c)
            \<and> JSON_parse e c = Inr spec
            \<and> map_spec spec (qr_rows qr)
                = Some (fst (generateVisualizationFromData e calls query qr))))
   \<and> (map_spec spec rows = Some g
      \<longrightarrow> gr_series g = or_else (spec_prop spec ''series'') (JArr [])
          \<and> gr_processedData g = spec_prop spec ''data'')"
  using fallback_series_keys [of qr] no_data_series_keys
    generateVisualization_paths [of e calls query qr] map_spec_verbatim [of spec rows g]
  by blast

theorem series_keys_present_paths_witness:
  "series_keys_present
     (fallbackVisualization
        \<lparr>qr_columns = [''month'', ''total''],
         qr_rows = [[(''month'', JStr ''Jan''), (''total'', JNum 3)]]\<rparr>)
   \<and> gr_processedData (the (map_spec sample_reply_parsed []))
       = spec_prop sample_reply_parsed ''data''"
proof -
  have m: "map_spec sample_reply_parsed [] = Some (the (map_spec sample_reply_parsed []))"
    by (simp add: map_spec_def sample_reply_parsed_def spec_prop_def)
  show ?thesis
    using series_keys_present_paths
      [where qr = "\<lparr>qr_columns = [''month'', ''total''],
         qr_rows = [[(''month'', JStr ''Jan''), (''total'', JNum 3)]]\<rparr>"
        and spec = sample_reply_parsed and rows = "[]"
        and g = "the (map_spec sample_reply_parsed [])"]
      m
    by simp
qed

text \<open>
  The completion service replies with a chart over \<open>month\<close> and \<open>total\<close> whose only
  series names the key \<open>revenue\<close>: the reply is mapped as it is, and the \<open>dataKey\<close> is
  a key of no element of \<open>processedData\<close>.
\<close>

theorem unchecked_reply_counterexample:
  "\<not> series_keys_present
       (fst (generateVisualizationFromData replying_env 0 ''show the revenue trend''
          \<lparr>qr_columns = [''month'', ''total''],
           qr_rows = [[(''month'', JStr ''Jan''), (''total'', JNum 3)]]\<rparr>))"
  by code_simp

section \<open>The connector\<close>

lemma auto_connect_connected: "client c \<noteq> None \<Longrightarrow> auto_connect e c = (Inr (), c)"
  by (auto simp: auto_connect_def)

lemma getSchema_connected: "client c \<noteq> None \<Longrightarrow> snd (getSchema e c) = c"
  by (simp add: getSchema_def auto_connect_connected split: sum.splits)

lemma executeQuery_connected: "client c \<noteq> None \<Longrightarrow> snd (executeQuery e c sql) = c"
  by (simp add: executeQuery_def auto_connect_connected split: sum.splits option.splits)

lemma disconnect_state:
  "snd (disconnect e c) =
     \<lparr>client = None,
      release_calls = release_calls c + (if isConnected c then 1 else 0),
      end_calls = end_calls c + 1,
      disconnect_calls = disconnect_calls c + 1\<rparr>"
  by (cases c) (auto simp: disconnect_def isConnected_def Let_def split: option.splits)

lemma disconnect_outcome:
  "fst (disconnect e c) =
     (case pool_end e (end_calls c) of None \<Rightarrow> Inr () | Some err \<Rightarrow> Inl err)"
  by (auto simp: disconnect_def Let_def split: option.splits)

text \<open>
  Claim C8, as the code has it. \<open>disconnect\<close> always leaves the connector
  disconnected, and releases the client only when there is one: a second call, or a
  call on a connector that never connected, releases nothing. It calls \<open>pool.end()\<close>
  every time and has no handler around it, so each call completes without an error
  exactly when that \<open>pool.end()\<close> resolves.
\<close>

theorem disconnect_twice:
  "\<not> isConnected (snd (disconnect e c))
   \<and> release_calls (snd (disconnect e c)) = release_calls c + (if isConnected c then 1 else 0)
   \<and> fst (disconnect e c)
       = (case pool_end e (end_calls c) of None \<Rightarrow> Inr () | Some err \<Rightarrow> Inl err)
   \<and> \<not> isConnected (snd (disconnect e (snd (disconnect e c))))
   \<and> release_calls (snd (disconnect e (snd (disconnect e c))))
       = release_calls (snd (disconnect e c))
   \<and> fst (disconnect e (snd (disconnect e c)))
       = (case pool_end e (end_calls c + 1) of None \<Rightarrow> Inr () | Some err \<Rightarrow> Inl err)"
  by (simp add: disconnect_state disconnect_outcome isConnected_def)

text \<open>
  With a pool that rejects a second \<open>end()\<close>, as the \<open>pg\<close> pool does, the second
  \<open>disconnect\<close> after a \<open>connect\<close> rejects.
\<close>

theorem second_disconnect_counterexample:
  "fst (disconnect sample_env (snd (disconnect sample_env (snd (connect sample_env
      \<lparr>client = None, release_calls = 0, end_calls = 0, disconnect_calls = 0\<rparr>)))))
   = Inl (JsError ''Error'' ''Called end on pool more than once'')"
  by code_simp

section \<open>The orchestrator's release of the connector\<close>

lemma try_block_connector:
  "fst (snd (try_block e query db)) =
     (if pool_connect e = None then db\<lparr>client := Some PoolClient\<rparr> else db)"
proof (cases "pool_connect e")
  case None
  let ?db1 = "db\<lparr>client := Some PoolClient\<rparr>"
  have c: "connect e db = (Inr (), ?db1)" using None by (simp add: connect_def)
  have g: "snd (getSchema e ?db1) = ?db1" by (rule getSchema_connected) simp
  have x: "snd (executeQuery e ?db1 sql) = ?db1" for sql by (rule executeQuery_connected) simp
  obtain gs where gs: "getSchema e ?db1 = (gs, ?db1)"
    using g by (metis prod.collapse)
  have xs: "\<exists>r. executeQuery e ?db1 sql = (r, ?db1)" for sql
    using x [of sql] by (metis prod.collapse)
  show ?thesis
  proof (cases gs)
    case (Inl err)
    then show ?thesis using None by (simp add: try_block_def c gs)
  next
    case (Inr schema)
    obtain sq calls where sq: "generateSQLFromNaturalLanguage e 0 query schema = (sq, calls)"
      by (cases "generateSQLFromNaturalLanguage e 0 query schema")
    show ?thesis
    proof (cases sq)
      case (Inl err)
      then show ?thesis using None Inr by (simp add: try_block_def c gs sq)
    next
      case sql: (Inr sql)
      obtain r where r: "executeQuery e ?db1 sql = (r, ?db1)" using xs by blast
      show ?thesis
        using None Inr sql
        by (cases r) (simp_all add: try_block_def c gs sq r Let_def split: prod.splits)
    qed
  qed
next
  case (Some err)
  then show ?thesis by (simp add: try_block_def connect_def)
qed

text \<open>
  Claim C4, as the code has it. The \<open>finally\<close> block calls \<open>disconnect\<close> only when
  \<open>isConnected()\<close> holds. So \<open>disconnect\<close> is invoked exactly once on every path on
  which \<open>connect\<close> succeeded (a normal return, or a failure of \<open>getSchema\<close>, of the
  SQL generation, of \<open>executeQuery\<close> or of the formatting) and not at all when
  \<open>connect\<close> itself failed; either way the connector is not connected when
  \<open>processQuery\<close> is done. When \<open>createDatabaseConnector\<close> throws there is no
  connector and \<open>processQuery\<close> throws the same error.
\<close>

theorem processQuery_disconnect_calls:
  "(case processQuery e request of
      (outcome, None, calls) \<Rightarrow>
        (\<exists>err. createDatabaseConnector e = Inl err \<and> outcome = Inl err)
    | (outcome, Some db, calls) \<Rightarrow>
        disconnect_calls db = (if pool_connect e = None then 1 else 0) \<and> \<not> isConnected db)"
proof (cases "createDatabaseConnector e")
  case (Inl err)
  then show ?thesis by (simp add: processQuery_def)
next
  case (Inr db)
  then have fresh: "db = \<lparr>client = None, release_calls = 0, end_calls = 0, disconnect_calls = 0\<rparr>"
    by (auto simp: createDatabaseConnector_def Let_def split: if_splits)
  obtain outcome db1 calls where t: "try_block e (req_query request) db = (outcome, db1, calls)"
    by (cases "try_block e (req_query request) db") auto
  have db1: "db1 = (if pool_connect e = None then db\<lparr>client := Some PoolClient\<rparr> else db)"
    using try_block_connector [of e "req_query request" db] t by simp
  show ?thesis
  proof (cases "pool_connect e")
    case None
    then have "isConnected db1" and "disconnect_calls db1 = 0"
      using db1 fresh by (simp_all add: isConnected_def)
    then show ?thesis
      using Inr t None disconnect_state [of e db1]
      by (cases "disconnect e db1")
         (auto simp: processQuery_def Let_def isConnected_def split: sum.splits)
  next
    case (Some err)
    then have "\<not> isConnected db1" and "disconnect_calls db1 = 0"
      using db1 fresh by (simp_all add: isConnected_def)
    then show ?thesis
      using Inr t Some by (simp add: processQuery_def Let_def)
  qed
qed

text \<open>
  The pool refuses the connection: \<open>processQuery\<close> returns the failure response and
  \<open>disconnect\<close> has not been invoked.
\<close>

theorem connect_failure_counterexample:
  "processQuery
     (sample_env\<lparr>pool_connect := Some (JsError ''Error'' ''connect ECONNREFUSED 127.0.0.1:5432'')\<rparr>)
     \<lparr>req_query = ''list all users'', req_dataSource = None\<rparr>
   = (Inr \<lparr>resultType = Table, resp_data = EmptyData, resp_sql = None,
           resp_message = Some ''Database query failed'',
           debug_executedQuery = ''Error executing query'', debug_rowCount = 0\<rparr>,
      Some \<lparr>client = None, release_calls = 0, end_calls = 0, disconnect_calls = 0\<rparr>,
      0)"
  by code_simp

section \<open>The orchestrator's failure response\<close>

text \<open>The \<open>try\<close> block throws exactly when one of its four stages fails.\<close>

lemma try_block_failure_stages:
  "fst (try_block e query db) = Inl error \<longleftrightarrow>
     fst (connect e db) = Inl error
   \<or> (fst (connect e db) = Inr ()
      \<and> fst (getSchema e (snd (connect e db))) = Inl error)
   \<or> (\<exists>schema. fst (connect e db) = Inr ()
      \<and> fst (getSchema e (snd (connect e db))) = Inr schema
      \<and> fst (generateSQLFromNaturalLanguage e 0 query schema) = Inl error)
   \<or> (\<exists>schema sql. fst (connect e db) = Inr ()
      \<and> fst (getSchema e (snd (connect e db))) = Inr schema
      \<and> fst (generateSQLFromNaturalLanguage e 0 query schema) = Inr sql
      \<and> fst (executeQuery e (snd (getSchema e (snd (connect e db)))) sql) = Inl error)"
  by (auto simp: try_block_def Let_def split: prod.splits sum.splits)

lemma errorMessage_fixed_set:
  "errorMessage error \<in> set [''SQL syntax error'', ''Database access error'',
      ''Database query timeout'', ''Requested table does not exist'',
      ''Requested column does not exist'', ''Database query failed'']"
  by (simp add: errorMessage_def Let_def)

lemma errorMessage_password:
  assumes "str_includes (String_of_error error)
             (''password authentication failed for user '' @ dq @ ''admin'' @ dq)"
    and "\<not> str_includes (toLowerCase (String_of_error error)) ''syntax error''"
  shows "errorMessage error = ''Database access error''"
proof -
  have lower: "toLowerCase (''password authentication failed for user '' @ dq @ ''admin'' @ dq)
                 = ''password authentication failed for user '' @ dq @ ''admin'' @ dq"
    by (simp add: toLowerCase_def lower_char_def)
  have part: "str_includes (''password authentication failed for user '' @ dq @ ''admin'' @ dq)
                ''authentication failed''"
    by simp
  have "str_includes (toLowerCase (String_of_error error))
          (toLowerCase (''password authentication failed for user '' @ dq @ ''admin'' @ dq))"
    using assms(1) by (rule str_includes_toLowerCase)
  then have "str_includes (toLowerCase (String_of_error error)) ''authentication failed''"
    unfolding lower using part by (rule str_includes_trans)
  then show ?thesis
    using assms(2) by (simp add: errorMessage_def Let_def)
qed

lemma processQuery_failure:
  assumes "createDatabaseConnector e = Inr db"
    and "fst (try_block e (req_query request) db) = Inl error"
    and "pool_connect e = None \<longrightarrow> pool_end e 0 = None"
  shows "fst (processQuery e request) = Inr (error_response error)"
proof -
  have fresh: "db = \<lparr>client = None, release_calls = 0, end_calls = 0, disconnect_calls = 0\<rparr>"
    using assms(1) by (auto simp: createDatabaseConnector_def Let_def split: if_splits)
  obtain db1 calls where t: "try_block e (req_query request) db = (Inl error, db1, calls)"
    using assms(2) by (cases "try_block e (req_query request) db") auto
  have db1: "db1 = (if pool_connect e = None then db\<lparr>client := Some PoolClient\<rparr> else db)"
    using try_block_connector [of e "req_query request" db] t by simp
  show ?thesis
  proof (cases "pool_connect e")
    case None
    then have "isConnected db1" and "end_calls db1 = 0"
      using db1 fresh by (simp_all add: isConnected_def)
    moreover have "pool_end e 0 = None" using assms(3) None by simp
    ultimately have "fst (disconnect e db1) = Inr ()"
      by (simp add: disconnect_outcome)
    then show ?thesis
      using assms(1) t \<open>isConnected db1\<close>
      by (cases "disconnect e db1") (auto simp: processQuery_def Let_def split: sum.splits)
  next
    case (Some err)
    then have "\<not> isConnected db1"
      using db1 fresh by (simp add: isConnected_def)
    then show ?thesis
      using assms(1) t by (simp add: processQuery_def Let_def)
  qed
qed

text \<open>
  Claim C2, as the code has it. When the \<open>try\<close> block of \<open>processQuery\<close> throws
  (\<open>connect\<close>, \<open>getSchema\<close>, the SQL generation or \<open>executeQuery\<close> failed:
  \<open>try_block_failure_stages\<close>) and the
  \<open>disconnect\<close> of the \<open>finally\<close> block does not itself throw, \<open>processQuery\<close> returns
  the response with result type "table", no data, \<open>executedQuery\<close> "Error executing
  query", row count 0 and a message that is one of six fixed texts, chosen by which
  substrings occur in the lower-cased \<open>String(error)\<close>: nothing else of the error
  reaches the response. An error matching no pattern gives "Database query failed".
  The patterns are tried in order and "syntax error" comes first: an error whose text
  contains \<open>password authentication failed for user "admin"\<close> gives "Database access
  error" when it does not also contain "syntax error". None of the six messages
  contains "password" or "admin".
\<close>

theorem failure_response_sanitized:
  assumes "createDatabaseConnector e = Inr db"
    and "fst (try_block e (req_query request) db) = Inl error"
    and "pool_connect e = None \<longrightarrow> pool_end e 0 = None"
  shows "fst (processQuery e request) =
           Inr \<lparr>resultType = Table, resp_data = EmptyData, resp_sql = None,
                resp_message = Some (errorMessage error),
                debug_executedQuery = ''Error executing query'', debug_rowCount = 0\<rparr>
         \<and> errorMessage error \<in> set [''SQL syntax error'', ''Database access error'',
              ''Database query timeout'', ''Requested table does not exist'',
              ''Requested column does not exist'', ''Database query failed'']
         \<and> errorMessage error =
              (if str_includes (toLowerCase (String_of_error error)) ''syntax error''
               then ''SQL syntax error''
               else if str_includes (toLowerCase (String_of_error error)) ''permission denied''
                       \<or> str_includes (toLowerCase (String_of_error error))
                            ''authentication failed''
               then ''Database access error''
               else if str_includes (toLowerCase (String_of_error error)) ''timeout''
               then ''Database query timeout''
               else if str_includes (toLowerCase (String_of_error error)) ''relation''
                       \<and> str_includes (toLowerCase (String_of_error error)) ''does not exist''
               then ''Requested table does not exist''
               else if str_includes (toLowerCase (String_of_error error)) ''column''
                       \<and> str_includes (toLowerCase (String_of_error error)) ''does not exist''
               then ''Requested column does not exist''
               else ''Database query failed'')
         \<and> (\<not> str_includes (toLowerCase (String_of_error error)) ''syntax error''
            \<and> \<not> str_includes (toLowerCase (String_of_error error)) ''permission denied''
            \<and> \<not> str_includes (toLowerCase (String_of_error error)) ''authentication failed''
            \<and> \<not> str_includes (toLowerCase (String_of_error error)) ''timeout''
            \<and> \<not> (str_includes (toLowerCase (String_of_error error)) ''relation''
                  \<and> str_includes (toLowerCase (String_of_error error)) ''does not exist'')
            \<and> \<not> (str_includes (toLowerCase (String_of_error error)) ''column''
                  \<and> str_includes (toLowerCase (String_of_error error)) ''does not exist'')
            \<longrightarrow> errorMessage error = ''Database query failed'')
         \<and> (str_includes (String_of_error error)
                (''password authentication failed for user '' @ dq @ ''admin'' @ dq)
            \<and> \<not> str_includes (toLowerCase (String_of_error error)) ''syntax error''
            \<longrightarrow> errorMessage error = ''Database access error'')
         \<and> (\<forall>m \<in> set [''SQL syntax error'', ''Database access error'',
                ''Database query timeout'', ''Requested table does not exist'',
                ''Requested column does not exist'', ''Database query failed''].
              \<not> str_includes m ''password'' \<and> \<not> str_includes m ''admin'')"
proof -
  have "fst (processQuery e request) = Inr (error_response error)"
    using assms by (rule processQuery_failure)
  then have response: "fst (processQuery e request) =
           Inr \<lparr>resultType = Table, resp_data = EmptyData, resp_sql = None,
                resp_message = Some (errorMessage error),
                debug_executedQuery = ''Error executing query'', debug_rowCount = 0\<rparr>"
    by (simp add: error_response_def)
  have unmatched: "\<not> str_includes (toLowerCase (String_of_error error)) ''syntax error''
            \<and> \<not> str_includes (toLowerCase (String_of_error error)) ''permission denied''
            \<and> \<not> str_includes (toLowerCase (String_of_error error)) ''authentication failed''
            \<and> \<not> str_includes (toLowerCase (String_of_error error)) ''timeout''
            \<and> \<not> (str_includes (toLowerCase (String_of_error error)) ''relation''
                  \<and> str_includes (toLowerCase (String_of_error error)) ''does not exist'')
            \<and> \<not> (str_includes (toLowerCase (String_of_error error)) ''column''
                  \<and> str_includes (toLowerCase (String_of_error error)) ''does not exist'')
            \<longrightarrow> errorMessage error = ''Database query failed''"
    by (simp add: errorMessage_def Let_def)
  have clean: "\<forall>m \<in> set [''SQL syntax error'', ''Database access error'',
                ''Database query timeout'', ''Requested table does not exist'',
                ''Requested column does not exist'', ''Database query failed''].
              \<not> str_includes m ''password'' \<and> \<not> str_includes m ''admin''"
    by simp
  have chain: "errorMessage error =
              (if str_includes (toLowerCase (String_of_error error)) ''syntax error''
               then ''SQL syntax error''
               else if str_includes (toLowerCase (String_of_error error)) ''permission denied''
                       \<or> str_includes (toLowerCase (String_of_error error))
                            ''authentication failed''
               then ''Database access error''
               else if str_includes (toLowerCase (String_of_error error)) ''timeout''
               then ''Database query timeout''
               else if str_includes (toLowerCase (String_of_error error)) ''relation''
                       \<and> str_includes (toLowerCase (String_of_error error)) ''does not exist''
               then ''Requested table does not exist''
               else if str_includes (toLowerCase (String_of_error error)) ''column''
                       \<and> str_includes (toLowerCase (String_of_error error)) ''does not exist''
               then ''Requested column does not exist''
               else ''Database query failed'')"
    by (simp add: errorMessage_def Let_def)
  from response errorMessage_fixed_set [of error] chain unmatched
    errorMessage_password [of error] clean
  show ?thesis by blast
qed

text \<open>
  The database rejects the statement with the authentication error: the response says
  "Database access error".
\<close>

theorem failure_response_sanitized_witness:
  "fst (processQuery
          (sample_env\<lparr>client_query := rejecting_query (JsError ''error''
             (''password authentication failed for user '' @ dq @ ''admin'' @ dq))\<rparr>)
          \<lparr>req_query = ''list all users'', req_dataSource = None\<rparr>)
     = Inr \<lparr>resultType = Table, resp_data = EmptyData, resp_sql = None,
            resp_message = Some ''Database access error'',
            debug_executedQuery = ''Error executing query'', debug_rowCount = 0\<rparr>
   \<and> \<not> str_includes ''Database access error'' ''password''
   \<and> \<not> str_includes ''Database access error'' ''admin''"
proof -
  let ?e = "sample_env\<lparr>client_query := rejecting_query (JsError ''error''
             (''password authentication failed for user '' @ dq @ ''admin'' @ dq))\<rparr>"
  let ?r = "\<lparr>req_query = ''list all users'', req_dataSource = None\<rparr>"
  let ?db = "\<lparr>client = None, release_calls = 0, end_calls = 0, disconnect_calls = 0\<rparr>"
  let ?err = "JsError ''QueryError'' (''Query execution failed: ''
                @ ''password authentication failed for user '' @ dq @ ''admin'' @ dq)"
  have h1: "createDatabaseConnector ?e = Inr ?db"
    by code_simp
  have h2: "fst (try_block ?e (req_query ?r) ?db) = Inl ?err"
    by code_simp
  have h3: "pool_connect ?e = None \<longrightarrow> pool_end ?e 0 = None"
    by code_simp
  have h4: "str_includes (String_of_error ?err)
              (''password authentication failed for user '' @ dq @ ''admin'' @ dq)"
    by code_simp
  have h5: "\<not> str_includes (toLowerCase (String_of_error ?err)) ''syntax error''"
    by code_simp
  have r: "fst (processQuery ?e ?r) =
             Inr \<lparr>resultType = Table, resp_data = EmptyData, resp_sql = None,
                  resp_message = Some (errorMessage ?err),
                  debug_executedQuery = ''Error executing query'', debug_rowCount = 0\<rparr>"
    and p: "str_includes (String_of_error ?err)
              (''password authentication failed for user '' @ dq @ ''admin'' @ dq)
            \<and> \<not> str_includes (toLowerCase (String_of_error ?err)) ''syntax error''
            \<longrightarrow> errorMessage ?err = ''Database access error''"
    using failure_response_sanitized [OF h1 h2 h3] by blast+
  have "errorMessage ?err = ''Database access error''"
    using p h4 h5 by blast
  with r show ?thesis by simp
qed

text \<open>
  The database rejects the statement with a syntax error that quotes the
  authentication text: the message is "SQL syntax error", not "Database access error".
\<close>

theorem syntax_error_first_counterexample:
  "str_includes
     (String_of_error (JsError ''QueryError'' (''Query execution failed: ''
        @ ''syntax error at or near '' @ dq
        @ ''password authentication failed for user '' @ dq @ ''admin'' @ dq @ dq)))
     (''password authentication failed for user '' @ dq @ ''admin'' @ dq)
   \<and> fst (try_block
        (sample_env\<lparr>client_query := rejecting_query (JsError ''error''
           (''syntax error at or near '' @ dq
            @ ''password authentication failed for user '' @ dq @ ''admin'' @ dq @ dq))\<rparr>)
        ''list all users''
        \<lparr>client = None, release_calls = 0, end_calls = 0, disconnect_calls = 0\<rparr>)
      = Inl (JsError ''QueryError'' (''Query execution failed: ''
          @ ''syntax error at or near '' @ dq
          @ ''password authentication failed for user '' @ dq @ ''admin'' @ dq @ dq))
   \<and> fst (processQuery
        (sample_env\<lparr>client_query := rejecting_query (JsError ''error''
           (''syntax error at or near '' @ dq
            @ ''password authentication failed for user '' @ dq @ ''admin'' @ dq @ dq))\<rparr>)
        \<lparr>req_query = ''list all users'', req_dataSource = None\<rparr>)
      = Inr \<lparr>resultType = Table, resp_data = EmptyData, resp_sql = None,
             resp_message = Some ''SQL syntax error'',
             debug_executedQuery = ''Error executing query'', debug_rowCount = 0\<rparr>"
  by code_simp

section \<open>Calendar arithmetic\<close>

lemma div_succ:
  fixes x c :: int
  assumes "0 < c"
  shows "(x + 1) div c = (if (x + 1) mod c = 0 then x div c + 1 else x div c)"
proof -
  define q r where "q = x div c" and "r = x mod c"
  have x: "x = c * q + r" and r: "0 \<le> r" "r < c"
    using assms by (simp_all add: q_def r_def)
  show ?thesis
  proof (cases "r + 1 = c")
    case True
    then have "x + 1 = c * (q + 1) + 0" using x by (simp add: algebra_simps)
    then have "(x + 1) div c = q + 1" "(x + 1) mod c = 0"
      using assms by (metis add.right_neutral nonzero_mult_div_cancel_left less_irrefl, simp)
    then show ?thesis by (simp add: q_def)
  next
    case False
    then have r1: "0 \<le> r + 1" "r + 1 < c" using r by simp_all
    have x1: "x + 1 = c * q + (r + 1)" using x by simp
    have "(x + 1) div c = q" using int_div_pos_eq [OF x1 r1] .
    moreover have "(x + 1) mod c = r + 1" using int_mod_pos_eq [OF x1 r1] .
    ultimately show ?thesis using r by (simp add: q_def)
  qed
qed

lemma m4: "(y - 1968) mod 4 = 0 \<longleftrightarrow> (y::int) mod 4 = 0"
  using mod_mult_self2 [of y 4 "- 492"] by simp
lemma m100: "(y - 1900) mod 100 = 0 \<longleftrightarrow> (y::int) mod 100 = 0"
  using mod_mult_self2 [of y 100 "- 19"] by simp
lemma m400: "(y - 1600) mod 400 = 0 \<longleftrightarrow> (y::int) mod 400 = 0"
  using mod_mult_self2 [of y 400 "- 4"] by simp
lemma m400_100: "(y::int) mod 400 = 0 \<Longrightarrow> y mod 100 = 0"
  using mod_mod_cancel [of 100 400 y] by simp
lemma m100_4: "(y::int) mod 100 = 0 \<Longrightarrow> y mod 4 = 0"
  using mod_mod_cancel [of 4 100 y] by simp

lemma DayFromYear_Suc: "DayFromYear (y + 1) = DayFromYear y + DaysInYear y"
proof -
  have 1: "(y + 1 - 1969) div 4 = (if y mod 4 = 0 then (y - 1969) div 4 + 1 else (y - 1969) div 4)"
    using div_succ [of 4 "y - 1969"] m4 [of y] by (simp add: algebra_simps)
  have 2: "(y + 1 - 1901) div 100 = (if y mod 100 = 0 then (y - 1901) div 100 + 1 else (y - 1901) div 100)"
    using div_succ [of 100 "y - 1901"] m100 [of y] by (simp add: algebra_simps)
  have 3: "(y + 1 - 1601) div 400 = (if y mod 400 = 0 then (y - 1601) div 400 + 1 else (y - 1601) div 400)"
    using div_succ [of 400 "y - 1601"] m400 [of y] by (simp add: algebra_simps)
  show ?thesis
    unfolding DayFromYear_def DaysInYear_def 1 2 3
    using m400_100 [of y] m100_4 [of y] by auto
qed

lemma DaysInYear_cases: "DaysInYear y = 365 \<or> DaysInYear y = 366"
  by (simp add: DaysInYear_def)

lemma year_search_le: "DayFromYear (year_search y d) \<le> d"
proof (induction y d rule: year_search.induct)
  case (1 y d)
  then show ?case by (subst year_search.simps) simp
qed

lemma year_search_upper:
  "d < DayFromYear (y + 1) \<Longrightarrow> d < DayFromYear (year_search y d + 1)"
proof (induction y d rule: year_search.induct)
  case (1 y d)
  show ?case
  proof (cases "DayFromYear y \<le> d")
    case True
    then show ?thesis using "1.prems" by (subst year_search.simps) simp
  next
    case False
    then have "d < DayFromYear (y - 1 + 1)" by simp
    with False "1.IH" have "d < DayFromYear (year_search (y - 1) d + 1)" by blast
    then show ?thesis using False by (subst year_search.simps) simp
  qed
qed

lemma DayFromYear_1970: "DayFromYear 1970 = 0"
  by (simp add: DayFromYear_def)

lemma DayFromYear_lower_after: "1970 \<le> y \<Longrightarrow> 365 * (y - 1970) \<le> DayFromYear y"
proof (induction y rule: int_ge_induct)
  case base
  show ?case by (simp add: DayFromYear_1970)
next
  case (step i)
  then show ?case
    using DayFromYear_Suc [of i] DaysInYear_cases [of i] by auto
qed

lemma DayFromYear_lower_before: "y \<le> 1970 \<Longrightarrow> 366 * (y - 1970) \<le> DayFromYear y"
proof (induction y rule: int_le_induct)
  case base
  show ?case by (simp add: DayFromYear_1970)
next
  case (step i)
  then show ?case
    using DayFromYear_Suc [of "i - 1"] DaysInYear_cases [of "i - 1"] by auto
qed

lemma DayFromYear_mono: "y \<le> y' \<Longrightarrow> DayFromYear y \<le> DayFromYear y'"
proof (induction y' rule: int_ge_induct)
  case base
  show ?case by simp
next
  case (step i)
  then show ?case
    using DayFromYear_Suc [of i] DaysInYear_cases [of i] by auto
qed

lemma search_start_above:
  "d < DayFromYear (1970 + (if 0 \<le> d then d div 365 else d div 366) + 1)"
proof (cases "0 \<le> d")
  case True
  have "d < 365 * (d div 365 + 1)"
    using div_mult_mod_eq [of d 365] pos_mod_bound [of 365 d] by simp
  also have "\<dots> \<le> DayFromYear (1970 + d div 365 + 1)"
  proof -
    have "0 \<le> d div 365" using True by (simp add: pos_imp_zdiv_nonneg_iff)
    then show ?thesis
      using DayFromYear_lower_after [of "1970 + d div 365 + 1"] by simp
  qed
  finally show ?thesis using True by simp
next
  case False
  have "d < 366 * (d div 366 + 1)"
    using div_mult_mod_eq [of d 366] pos_mod_bound [of 366 d] by simp
  also have "\<dots> \<le> DayFromYear (1970 + d div 366 + 1)"
  proof -
    have "d div 366 < 0" using False by (simp add: div_neg_pos_less0)
    then show ?thesis
      using DayFromYear_lower_before [of "1970 + d div 366 + 1"] by simp
  qed
  finally show ?thesis using False by simp
qed

text \<open>
  \<open>YearFromTime\<close> is the function of the ECMAScript specification: the largest year
  whose first day is not after the day of \<open>t\<close>.
\<close>

lemma YearFromTime_largest:
  "DayFromYear (YearFromTime t) \<le> Day t
   \<and> (\<forall>y. DayFromYear y \<le> Day t \<longrightarrow> y \<le> YearFromTime t)"
proof -
  let ?d = "Day t"
  let ?s = "1970 + (if 0 \<le> ?d then ?d div 365 else ?d div 366)"
  have Y: "YearFromTime t = year_search ?s ?d"
    by (simp add: YearFromTime_def Let_def)
  have le: "DayFromYear (YearFromTime t) \<le> ?d"
    unfolding Y by (rule year_search_le)
  have up: "?d < DayFromYear (YearFromTime t + 1)"
    unfolding Y by (rule year_search_upper) (rule search_start_above)
  have "y \<le> YearFromTime t" if "DayFromYear y \<le> ?d" for y
  proof (rule ccontr)
    assume "\<not> y \<le> YearFromTime t"
    then have "YearFromTime t + 1 \<le> y" by simp
    then have "DayFromYear (YearFromTime t + 1) \<le> DayFromYear y" by (rule DayFromYear_mono)
    with up that show False by simp
  qed
  with le show ?thesis by blast
qed

lemma iso_date_samples:
  "iso_date 0 = ''1970-01-01''"
  "iso_date (- 1) = ''1969-12-31''"
  "iso_date 951782400000 = ''2000-02-29''"
  "iso_date 1710504000000 = ''2024-03-15''"
  by code_simp+

lemma MonthFromTime_range: "0 \<le> MonthFromTime t \<and> MonthFromTime t \<le> 11"
  by (simp add: MonthFromTime_def Let_def)

lemma MakeDay_current:
  "MakeDay (YearFromTime t) (MonthFromTime t) dt = Day t + (dt - DateFromTime t)"
proof -
  have "MonthFromTime t div 12 = 0" "MonthFromTime t mod 12 = MonthFromTime t"
    using MonthFromTime_range [of t] by simp_all
  then show ?thesis
    by (simp add: MakeDay_def Let_def DateFromTime_def DayWithinYear_def InLeapYear_def)
qed

lemma Day_TimeWithinDay: "Day t * msPerDay + TimeWithinDay t = t"
  by (simp add: Day_def TimeWithinDay_def)

lemma setDate_shift:
  "setDate tz t (getDate tz t + k) =
     TimeClip (t + k * msPerDay + (tz t True - tz (t + tz t True + k * msPerDay) False))"
proof -
  let ?lt = "t + tz t True"
  have "MakeDate (MakeDay (YearFromTime ?lt) (MonthFromTime ?lt) (DateFromTime ?lt + k))
          (TimeWithinDay ?lt) = ?lt + k * msPerDay"
    using Day_TimeWithinDay [of ?lt]
    by (simp add: MakeDay_current MakeDate_def algebra_simps)
  then show ?thesis
    by (simp add: setDate_def getDate_def LocalTime_def UTC_def Let_def algebra_simps)
qed

lemma leap_flag_cases:
  "(if DaysInYear y = 366 then 1 else 0) = (0::int) \<or> (if DaysInYear y = 366 then 1 else 0) = (1::int)"
  by simp

lemma month_cases:
  assumes "0 \<le> m" and "m \<le> (11::int)"
  shows "m = 0 \<or> m = 1 \<or> m = 2 \<or> m = 3 \<or> m = 4 \<or> m = 5 \<or> m = 6 \<or> m = 7 \<or> m = 8
         \<or> m = 9 \<or> m = 10 \<or> m = 11"
  using assms by arith

lemma MakeDay_months_back:
  assumes m: "0 \<le> m" "m \<le> 11"
  shows "\<exists>k. MakeDay y (m - 1) d = DayFromYear y + month_start m (if DaysInYear y = 366 then 1 else 0) + d - 1 - k
              \<and> 28 \<le> k \<and> k \<le> 31"
    and "\<exists>k. MakeDay y (m - 3) d = DayFromYear y + month_start m (if DaysInYear y = 366 then 1 else 0) + d - 1 - k
              \<and> 89 \<le> k \<and> k \<le> 92"
proof -
  have prev: "DayFromYear (y - 1) = DayFromYear y - DaysInYear (y - 1)"
    using DayFromYear_Suc [of "y - 1"] by simp
  have neg1: "(-1::int) div 12 = -1" "(-1::int) mod 12 = 11"
    and neg2: "(-2::int) div 12 = -1" "(-2::int) mod 12 = 10"
    and neg3: "(-3::int) div 12 = -1" "(-3::int) mod 12 = 9"
    by simp_all
  show "\<exists>k. MakeDay y (m - 1) d = DayFromYear y + month_start m (if DaysInYear y = 366 then 1 else 0) + d - 1 - k
              \<and> 28 \<le> k \<and> k \<le> 31"
    using month_cases [OF m] DaysInYear_cases [of y] DaysInYear_cases [of "y - 1"]
    by (elim disjE) (simp_all add: MakeDay_def Let_def month_start_def prev neg1)
  show "\<exists>k. MakeDay y (m - 3) d = DayFromYear y + month_start m (if DaysInYear y = 366 then 1 else 0) + d - 1 - k
              \<and> 89 \<le> k \<and> k \<le> 92"
    using month_cases [OF m] DaysInYear_cases [of y] DaysInYear_cases [of "y - 1"]
    by (elim disjE) (simp_all add: MakeDay_def Let_def month_start_def prev neg1 neg2 neg3)
qed

lemma Day_decompose:
  "Day t = DayFromYear (YearFromTime t)
           + month_start (MonthFromTime t) (if DaysInYear (YearFromTime t) = 366 then 1 else 0)
           + DateFromTime t - 1"
  by (simp add: DateFromTime_def DayWithinYear_def InLeapYear_def)

lemma setMonth_back:
  "\<exists>k. setMonth tz t (getMonth tz t - 1) =
         TimeClip (t - k * msPerDay + (tz t True - tz (t + tz t True - k * msPerDay) False))
       \<and> 28 \<le> k \<and> k \<le> 31"
  "\<exists>k. setMonth tz t (getMonth tz t - 3) =
         TimeClip (t - k * msPerDay + (tz t True - tz (t + tz t True - k * msPerDay) False))
       \<and> 89 \<le> k \<and> k \<le> 92"
proof -
  let ?lt = "t + tz t True"
  have r: "0 \<le> MonthFromTime ?lt" "MonthFromTime ?lt \<le> 11"
    using MonthFromTime_range [of ?lt] by simp_all
  have shift: "MakeDate (Day ?lt - k) (TimeWithinDay ?lt) = ?lt - k * msPerDay" for k
    using Day_TimeWithinDay [of ?lt] by (simp add: MakeDate_def algebra_simps)
  obtain k1 where k1: "MakeDay (YearFromTime ?lt) (MonthFromTime ?lt - 1) (DateFromTime ?lt) = Day ?lt - k1"
    and b1: "28 \<le> k1" "k1 \<le> 31"
    using MakeDay_months_back(1) [OF r, of "YearFromTime ?lt" "DateFromTime ?lt"]
      Day_decompose [of ?lt] by auto
  obtain k3 where k3: "MakeDay (YearFromTime ?lt) (MonthFromTime ?lt - 3) (DateFromTime ?lt) = Day ?lt - k3"
    and b3: "89 \<le> k3" "k3 \<le> 92"
    using MakeDay_months_back(2) [OF r, of "YearFromTime ?lt" "DateFromTime ?lt"]
      Day_decompose [of ?lt] by auto
  have "setMonth tz t (getMonth tz t - 1) =
         TimeClip (t - k1 * msPerDay + (tz t True - tz (t + tz t True - k1 * msPerDay) False))"
    by (simp add: setMonth_def getMonth_def LocalTime_def UTC_def Let_def k1 shift algebra_simps)
  with b1 show "\<exists>k. setMonth tz t (getMonth tz t - 1) =
         TimeClip (t - k * msPerDay + (tz t True - tz (t + tz t True - k * msPerDay) False))
       \<and> 28 \<le> k \<and> k \<le> 31"
    by blast
  have "setMonth tz t (getMonth tz t - 3) =
         TimeClip (t - k3 * msPerDay + (tz t True - tz (t + tz t True - k3 * msPerDay) False))"
    by (simp add: setMonth_def getMonth_def LocalTime_def UTC_def Let_def k3 shift algebra_simps)
  with b3 show "\<exists>k. setMonth tz t (getMonth tz t - 3) =
         TimeClip (t - k * msPerDay + (tz t True - tz (t + tz t True - k * msPerDay) False))
       \<and> 89 \<le> k \<and> k \<le> 92"
    by blast
qed

section \<open>The enrollment override\<close>

lemma digit_char_digit: "digit_char n \<in> set ''0123456789''"
  unfolding digit_char_def by (rule nth_mem) simp

lemma digits_no_T: "CHR ''T'' \<notin> set (digits k n)"
proof (induction k arbitrary: n)
  case 0
  show ?case by simp
next
  case (Suc k)
  have "digit_char n \<noteq> CHR ''T''"
    using digit_char_digit [of n] by auto
  with Suc show ?case by simp
qed

lemma iso_date_no_T: "CHR ''T'' \<notin> set (iso_date t)"
  by (simp add: iso_date_def iso_year_def digits_no_T)

lemma formatted_Some: "formatted (Some t) = Inr (iso_date t)"
proof -
  have "takeWhile (\<lambda>c. c \<noteq> CHR ''T'') (iso_date t @ CHR ''T'' # iso_time t)
          = iso_date t @ takeWhile (\<lambda>c. c \<noteq> CHR ''T'') (CHR ''T'' # iso_time t)"
    by (rule takeWhile_append2) (use iso_date_no_T [of t] in auto)
  then have "takeWhile (\<lambda>c. c \<noteq> CHR ''T'') (iso_date t @ CHR ''T'' # iso_time t) = iso_date t"
    by simp
  then show ?thesis
    by (simp add: formatted_def toISOString_def and_then_def split_T_0_def)
qed

lemma trim_between:
  assumes "\<forall>c \<in> set pre. is_space c" and "\<not> is_space a" and "\<not> is_space b"
    and "\<forall>c \<in> set post. is_space c"
  shows "trim (pre @ a # mid @ b # post) = a # mid @ [b]"
proof -
  have "dropWhile is_space (pre @ a # mid @ b # post) = dropWhile is_space (a # mid @ b # post)"
    by (rule dropWhile_append2) (use assms(1) in auto)
  then have lead: "dropWhile is_space (pre @ a # mid @ b # post) = a # mid @ b # post"
    using assms(2) by simp
  have "dropWhile is_space (rev post @ b # rev mid @ [a]) = dropWhile is_space (b # rev mid @ [a])"
    by (rule dropWhile_append2) (use assms(4) in auto)
  then have rear: "dropWhile is_space (rev post @ b # rev mid @ [a]) = b # rev mid @ [a]"
    using assms(3) by simp
  show ?thesis
    by (simp add: trim_def lead rear)
qed

lemma trim_enrollment_template:
  "trim (enrollment_template startDate formattedToday isActive) =
     ''SELECT * FROM enrollments '' @ nl
     @ ''    WHERE enrollment_date >= '' @ apostrophe @ startDate @ apostrophe @ '' '' @ nl
     @ ''    AND enrollment_date <= '' @ apostrophe @ formattedToday @ apostrophe @ nl
     @ ''    '' @ isActive @ nl
     @ ''    ORDER BY enrollment_date DESC''"
proof -
  have "trim (enrollment_template startDate formattedToday isActive) =
      trim ((nl @ ''    '') @ CHR ''S'' # (''ELECT * FROM enrollments '' @ nl
     @ ''    WHERE enrollment_date >= '' @ apostrophe @ startDate @ apostrophe @ '' '' @ nl
     @ ''    AND enrollment_date <= '' @ apostrophe @ formattedToday @ apostrophe @ nl
     @ ''    '' @ isActive @ nl
     @ ''    ORDER BY enrollment_date DES'') @ CHR ''C'' # (nl @ ''  ''))"
    by (simp add: enrollment_template_def)
  also have "\<dots> = CHR ''S'' # (''ELECT * FROM enrollments '' @ nl
     @ ''    WHERE enrollment_date >= '' @ apostrophe @ startDate @ apostrophe @ '' '' @ nl
     @ ''    AND enrollment_date <= '' @ apostrophe @ formattedToday @ apostrophe @ nl
     @ ''    '' @ isActive @ nl
     @ ''    ORDER BY enrollment_date DES'') @ [CHR ''C'']"
    by (rule trim_between) (simp_all add: is_space_def)
  finally show ?thesis by simp
qed

lemma TimeClip_recent:
  assumes "0 \<le> t" and "t \<le> 8640000000000000" and "7 \<le> k" and "k \<le> 92"
    and "\<bar>a\<bar> \<le> msPerDay" and "\<bar>b\<bar> \<le> msPerDay"
  shows "TimeClip (t - k * msPerDay + (a - b)) = Some (t - k * msPerDay + (a - b))"
proof -
  have "k * msPerDay \<le> 92 * msPerDay" "7 * msPerDay \<le> k * msPerDay"
    using assms(3,4) by (simp_all add: msPerDay_def)
  then show ?thesis
    using assms(1,2,5,6) by (simp add: TimeClip_def msPerDay_def)
qed

text \<open>
  The three start dates and the SQL of \<open>handleEnrollmentQuery\<close>. Each start is \<open>k\<close>
  days before now, moved by the difference between the zone's offset now and its
  offset at the local time of the start.
\<close>

lemma handleEnrollmentQuery_dates:
  assumes "0 \<le> clock_now e" and "clock_now e \<le> 8640000000000000"
    and "\<forall>t isUTC. \<bar>LocalTZA e t isUTC\<bar> \<le> msPerDay"
  shows "\<exists>k1 k3. 28 \<le> k1 \<and> k1 \<le> 31 \<and> 89 \<le> k3 \<and> k3 \<le> 92
          \<and> setDate (LocalTZA e) (clock_now e) (getDate (LocalTZA e) (clock_now e) - 7)
              = Some (clock_now e - 7 * msPerDay
                      + (LocalTZA e (clock_now e) True
                         - LocalTZA e (clock_now e + LocalTZA e (clock_now e) True
                                       - 7 * msPerDay) False))
          \<and> setMonth (LocalTZA e) (clock_now e) (getMonth (LocalTZA e) (clock_now e) - 1)
              = Some (clock_now e - k1 * msPerDay
                      + (LocalTZA e (clock_now e) True
                         - LocalTZA e (clock_now e + LocalTZA e (clock_now e) True
                                       - k1 * msPerDay) False))
          \<and> setMonth (LocalTZA e) (clock_now e) (getMonth (LocalTZA e) (clock_now e) - 3)
              = Some (clock_now e - k3 * msPerDay
                      + (LocalTZA e (clock_now e) True
                         - LocalTZA e (clock_now e + LocalTZA e (clock_now e) True
                                       - k3 * msPerDay) False))
          \<and> handleEnrollmentQuery e query =
              Inr (trim (enrollment_template
                     (iso_date (clock_now e
                        - (if str_includes (toLowerCase query) ''month'' then k1
                           else if str_includes (toLowerCase query) ''quarter'' then k3
                           else 7) * msPerDay
                        + (LocalTZA e (clock_now e) True
                           - LocalTZA e (clock_now e + LocalTZA e (clock_now e) True
                               - (if str_includes (toLowerCase query) ''month'' then k1
                                  else if str_includes (toLowerCase query) ''quarter'' then k3
                                  else 7) * msPerDay) False)))
                     (iso_date (clock_now e))
                     (if str_includes (toLowerCase query) ''active''
                      then ''AND status = '' @ apostrophe @ ''active'' @ apostrophe
                      else [])))"
proof -
  let ?t = "clock_now e" and ?z = "LocalTZA e"
  let ?s = "\<lambda>k. ?t - k * msPerDay + (?z ?t True - ?z (?t + ?z ?t True - k * msPerDay) False)"
  have z: "\<bar>?z x b\<bar> \<le> msPerDay" for x b
    using assms(3) by blast
  have clip: "TimeClip (?s k) = Some (?s k)" if "7 \<le> k" "k \<le> 92" for k
    using TimeClip_recent [OF assms(1,2) that z z] .
  obtain k1 where k1: "setMonth ?z ?t (getMonth ?z ?t - 1) = TimeClip (?s k1)"
    and b1: "28 \<le> k1" "k1 \<le> 31"
    using setMonth_back(1) [of ?z ?t] by blast
  obtain k3 where k3: "setMonth ?z ?t (getMonth ?z ?t - 3) = TimeClip (?s k3)"
    and b3: "89 \<le> k3" "k3 \<le> 92"
    using setMonth_back(2) [of ?z ?t] by blast
  have m: "setMonth ?z ?t (getMonth ?z ?t - 1) = Some (?s k1)"
    using k1 clip [of k1] b1 by simp
  have q: "setMonth ?z ?t (getMonth ?z ?t - 3) = Some (?s k3)"
    using k3 clip [of k3] b3 by simp
  have w: "setDate ?z ?t (getDate ?z ?t - 7) = Some (?s 7)"
    using setDate_shift [of ?z ?t "-7"] clip [of 7] by simp
  have "handleEnrollmentQuery e query =
              Inr (trim (enrollment_template
                     (iso_date (?s (if str_includes (toLowerCase query) ''month'' then k1
                                    else if str_includes (toLowerCase query) ''quarter'' then k3
                                    else 7)))
                     (iso_date (clock_now e))
                     (if str_includes (toLowerCase query) ''active''
                      then ''AND status = '' @ apostrophe @ ''active'' @ apostrophe
                      else [])))"
    by (simp add: handleEnrollmentQuery_def Let_def m q w formatted_Some and_then_def)
  with m q w b1 b3 show ?thesis by blast
qed

text \<open>
  Claim C10. With the clock between 1970 and the end of the range of time values, in
  a time zone whose offsets stay within a day, \<open>handleEnrollmentQuery\<close> returns the
  SQL whose start date is the \<open>lastMonth\<close> date whenever the query contains "month"
  (also when it contains "quarter" as well), the \<open>lastQuarter\<close> date when it contains
  "quarter" and not "month", and the \<open>lastWeek\<close> date when it contains neither.
  \<open>lastWeek\<close> is seven days before now in local time: seven times 24 hours before
  now, moved by the difference between the zone's offset now and its offset then
  (nothing when no daylight-saving change lies between).
\<close>

theorem enrollment_window_precedence:
  assumes "0 \<le> clock_now e" and "clock_now e \<le> 8640000000000000"
    and "\<forall>t isUTC. \<bar>LocalTZA e t isUTC\<bar> \<le> msPerDay"
  shows "\<exists>weekStart monthStart quarterStart.
           setDate (LocalTZA e) (clock_now e) (getDate (LocalTZA e) (clock_now e) - 7)
             = Some weekStart
         \<and> setMonth (LocalTZA e) (clock_now e) (getMonth (LocalTZA e) (clock_now e) - 1)
             = Some monthStart
         \<and> setMonth (LocalTZA e) (clock_now e) (getMonth (LocalTZA e) (clock_now e) - 3)
             = Some quarterStart
         \<and> weekStart = clock_now e - 7 * msPerDay
                         + (LocalTZA e (clock_now e) True
                            - LocalTZA e (clock_now e + LocalTZA e (clock_now e) True
                                          - 7 * msPerDay) False)
         \<and> handleEnrollmentQuery e query =
             Inr (trim (enrollment_template
                    (iso_date (if str_includes (toLowerCase query) ''month'' then monthStart
                               else if str_includes (toLowerCase query) ''quarter''
                               then quarterStart
                               else weekStart))
                    (iso_date (clock_now e))
                    (if str_includes (toLowerCase query) ''active''
                     then ''AND status = '' @ apostrophe @ ''active'' @ apostrophe
                     else [])))"
proof -
  let ?t = "clock_now e" and ?z = "LocalTZA e"
  let ?s = "\<lambda>k. ?t - k * msPerDay + (?z ?t True - ?z (?t + ?z ?t True - k * msPerDay) False)"
  obtain k1 k3 where w: "setDate ?z ?t (getDate ?z ?t - 7) = Some (?s 7)"
    and m: "setMonth ?z ?t (getMonth ?z ?t - 1) = Some (?s k1)"
    and q: "setMonth ?z ?t (getMonth ?z ?t - 3) = Some (?s k3)"
    and h: "handleEnrollmentQuery e query =
              Inr (trim (enrollment_template
                     (iso_date (?s (if str_includes (toLowerCase query) ''month'' then k1
                                    else if str_includes (toLowerCase query) ''quarter'' then k3
                                    else 7)))
                     (iso_date (clock_now e))
                     (if str_includes (toLowerCase query) ''active''
                      then ''AND status = '' @ apostrophe @ ''active'' @ apostrophe
                      else [])))"
    using handleEnrollmentQuery_dates [OF assms, of query] by blast
  have pick: "?s (if str_includes (toLowerCase query) ''month'' then k1
                  else if str_includes (toLowerCase query) ''quarter'' then k3 else 7)
              = (if str_includes (toLowerCase query) ''month'' then ?s k1
                 else if str_includes (toLowerCase query) ''quarter'' then ?s k3 else ?s 7)"
    by simp
  show ?thesis
    using w m q h unfolding pick by blast
qed

text \<open>
  In a UTC zone on 2024-03-15 a query with both "month" and "quarter" starts at
  2024-02-15; in New York at 2024-03-14T23:30Z, four days after daylight saving
  began, a query with neither starts at 2024-03-08 (seven local days back is
  2024-03-08T00:30Z).
\<close>

theorem enrollment_window_precedence_witness:
  "handleEnrollmentQuery sample_env ''enrollments by month and quarter''
     = Inr (trim (enrollment_template ''2024-02-15'' ''2024-03-15'' []))
   \<and> handleEnrollmentQuery new_york_env ''enrollments of the last week''
     = Inr (trim (enrollment_template ''2024-03-08'' ''2024-03-14'' []))"
proof -
  let ?q = "''enrollments by month and quarter''"
  have r: "0 \<le> clock_now sample_env" "clock_now sample_env \<le> 8640000000000000"
    "\<forall>t isUTC. \<bar>LocalTZA sample_env t isUTC\<bar> \<le> msPerDay"
    by (simp_all add: sample_env_def msPerDay_def)
  obtain monthStart quarterStart weekStart where
    m: "setMonth (LocalTZA sample_env) (clock_now sample_env)
          (getMonth (LocalTZA sample_env) (clock_now sample_env) - 1) = Some monthStart"
    and h: "handleEnrollmentQuery sample_env ?q =
             Inr (trim (enrollment_template
                    (iso_date (if str_includes (toLowerCase ?q) ''month'' then monthStart
                               else if str_includes (toLowerCase ?q) ''quarter''
                               then quarterStart
                               else weekStart))
                    (iso_date (clock_now sample_env))
                    (if str_includes (toLowerCase ?q) ''active''
                     then ''AND status = '' @ apostrophe @ ''active'' @ apostrophe
                     else [])))"
    using enrollment_window_precedence [OF r, of ?q] by blast
  have "setMonth (LocalTZA sample_env) (clock_now sample_env)
          (getMonth (LocalTZA sample_env) (clock_now sample_env) - 1) = Some 1707998400000"
    by code_simp
  with m have ms: "monthStart = 1707998400000" by simp
  have c1: "str_includes (toLowerCase ?q) ''month''"
    and c2: "\<not> str_includes (toLowerCase ?q) ''active''"
    and c3: "iso_date 1707998400000 = ''2024-02-15''"
    and c4: "iso_date (clock_now sample_env) = ''2024-03-15''"
    by code_simp+
  have first: "handleEnrollmentQuery sample_env ?q
     = Inr (trim (enrollment_template ''2024-02-15'' ''2024-03-15'' []))"
    using h c1 c2 by (simp add: ms c3 c4)
  let ?p = "''enrollments of the last week''"
  have r': "0 \<le> clock_now new_york_env" "clock_now new_york_env \<le> 8640000000000000"
    "\<forall>t isUTC. \<bar>LocalTZA new_york_env t isUTC\<bar> \<le> msPerDay"
    by (simp_all add: new_york_env_def sample_env_def new_york_2024_def msPerDay_def)
  obtain monthStart' quarterStart' weekStart' where
    w: "setDate (LocalTZA new_york_env) (clock_now new_york_env)
          (getDate (LocalTZA new_york_env) (clock_now new_york_env) - 7) = Some weekStart'"
    and h': "handleEnrollmentQuery new_york_env ?p =
             Inr (trim (enrollment_template
                    (iso_date (if str_includes (toLowerCase ?p) ''month'' then monthStart'
                               else if str_includes (toLowerCase ?p) ''quarter''
                               then quarterStart'
                               else weekStart'))
                    (iso_date (clock_now new_york_env))
                    (if str_includes (toLowerCase ?p) ''active''
                     then ''AND status = '' @ apostrophe @ ''active'' @ apostrophe
                     else [])))"
    using enrollment_window_precedence [OF r', of ?p] by blast
  have "setDate (LocalTZA new_york_env) (clock_now new_york_env)
          (getDate (LocalTZA new_york_env) (clock_now new_york_env) - 7) = Some 1709857800000"
    by code_simp
  with w have ws: "weekStart' = 1709857800000" by simp
  have d1: "\<not> str_includes (toLowerCase ?p) ''month''"
    and d2: "\<not> str_includes (toLowerCase ?p) ''quarter''"
    and d3: "\<not> str_includes (toLowerCase ?p) ''active''"
    and d4: "iso_date 1709857800000 = ''2024-03-08''"
    and d5: "iso_date (clock_now new_york_env) = ''2024-03-14''"
    by code_simp+
  have second: "handleEnrollmentQuery new_york_env ?p
     = Inr (trim (enrollment_template ''2024-03-08'' ''2024-03-14'' []))"
    using h' d1 d2 d3 by (simp add: ws d4 d5)
  from first second show ?thesis by blast
qed

text \<open>
  Claim C1, as the code has it. For every query that contains "enrollment" and one of
  "week", "month" and "quarter" (case-insensitive), a clock between 1970 and the end
  of the range of time values and a time zone whose offsets stay within a day,
  \<open>generateSQLFromNaturalLanguage\<close> makes no call to the completion service (the
  count of calls is unchanged and the result does not depend on the service) and
  returns the SQL below: \<open>SELECT * FROM enrollments\<close> with \<open>enrollment_date\<close> from a
  start date to today, ordered by \<open>enrollment_date\<close> descending, with the status
  filter exactly when the query contains "active". Both dates are UTC dates
  (\<open>toISOString\<close>). The start is what \<open>setDate(getDate() - 7)\<close> gives when the query
  contains neither "month" nor "quarter", what \<open>setMonth(getMonth() - 1)\<close> gives when
  it contains "month", and what \<open>setMonth(getMonth() - 3)\<close> gives when it contains
  "quarter" and not "month". It is the instant \<open>k\<close> days of 24 hours before now, with
  \<open>k\<close> 7, from 28 to 31 and from 89 to 92 in the three cases, moved by the difference
  between the zone's offset from UTC now and its offset at the local time of the
  start: nothing when no daylight-saving change lies between.
\<close>

theorem enrollment_override_sql:
  assumes "0 \<le> clock_now e" and "clock_now e \<le> 8640000000000000"
    and "\<forall>t isUTC. \<bar>LocalTZA e t isUTC\<bar> \<le> msPerDay"
    and "is_enrollment_query query"
  shows "\<exists>k start.
           (if str_includes (toLowerCase query) ''month''
            then 28 \<le> k \<and> k \<le> 31
                 \<and> setMonth (LocalTZA e) (clock_now e)
                       (getMonth (LocalTZA e) (clock_now e) - 1) = Some start
            else if str_includes (toLowerCase query) ''quarter''
            then 89 \<le> k \<and> k \<le> 92
                 \<and> setMonth (LocalTZA e) (clock_now e)
                       (getMonth (LocalTZA e) (clock_now e) - 3) = Some start
            else k = 7
                 \<and> setDate (LocalTZA e) (clock_now e)
                       (getDate (LocalTZA e) (clock_now e) - 7) = Some start)
         \<and> start = clock_now e - k * msPerDay
                     + (LocalTZA e (clock_now e) True
                        - LocalTZA e (clock_now e + LocalTZA e (clock_now e) True
                                      - k * msPerDay) False)
         \<and> generateSQLFromNaturalLanguage e calls query schema =
              (Inr (''SELECT * FROM enrollments '' @ nl
                    @ ''    WHERE enrollment_date >= '' @ apostrophe
                    @ iso_date start @ apostrophe @ '' '' @ nl
                    @ ''    AND enrollment_date <= '' @ apostrophe
                    @ iso_date (clock_now e) @ apostrophe @ nl
                    @ ''    '' @ (if str_includes (toLowerCase query) ''active''
                                  then ''AND status = '' @ apostrophe @ ''active'' @ apostrophe
                                  else []) @ nl
                    @ ''    ORDER BY enrollment_date DESC''),
               calls)"
proof -
  let ?t = "clock_now e" and ?z = "LocalTZA e"
  let ?s = "\<lambda>k. ?t - k * msPerDay + (?z ?t True - ?z (?t + ?z ?t True - k * msPerDay) False)"
  obtain k1 k3 where b: "28 \<le> k1" "k1 \<le> 31" "89 \<le> k3" "k3 \<le> 92"
    and w: "setDate ?z ?t (getDate ?z ?t - 7) = Some (?s 7)"
    and m: "setMonth ?z ?t (getMonth ?z ?t - 1) = Some (?s k1)"
    and q: "setMonth ?z ?t (getMonth ?z ?t - 3) = Some (?s k3)"
    and h: "handleEnrollmentQuery e query =
              Inr (trim (enrollment_template
                     (iso_date (?s (if str_includes (toLowerCase query) ''month'' then k1
                                    else if str_includes (toLowerCase query) ''quarter'' then k3
                                    else 7)))
                     (iso_date (clock_now e))
                     (if str_includes (toLowerCase query) ''active''
                      then ''AND status = '' @ apostrophe @ ''active'' @ apostrophe
                      else [])))"
    using handleEnrollmentQuery_dates [OF assms(1,2,3), of query] by blast
  define k where "k = (if str_includes (toLowerCase query) ''month'' then k1
                       else if str_includes (toLowerCase query) ''quarter'' then k3 else 7)"
  have kb: "if str_includes (toLowerCase query) ''month''
            then 28 \<le> k \<and> k \<le> 31 \<and> setMonth ?z ?t (getMonth ?z ?t - 1) = Some (?s k)
            else if str_includes (toLowerCase query) ''quarter''
            then 89 \<le> k \<and> k \<le> 92 \<and> setMonth ?z ?t (getMonth ?z ?t - 3) = Some (?s k)
            else k = 7 \<and> setDate ?z ?t (getDate ?z ?t - 7) = Some (?s k)"
    using b w m q by (simp add: k_def)
  have "generateSQLFromNaturalLanguage e calls query schema = (handleEnrollmentQuery e query, calls)"
    using assms(4) by (simp add: generateSQLFromNaturalLanguage_def)
  then have "generateSQLFromNaturalLanguage e calls query schema =
              (Inr (''SELECT * FROM enrollments '' @ nl
                    @ ''    WHERE enrollment_date >= '' @ apostrophe
                    @ iso_date (?s k) @ apostrophe @ '' '' @ nl
                    @ ''    AND enrollment_date <= '' @ apostrophe
                    @ iso_date (clock_now e) @ apostrophe @ nl
                    @ ''    '' @ (if str_includes (toLowerCase query) ''active''
                                  then ''AND status = '' @ apostrophe @ ''active'' @ apostrophe
                                  else []) @ nl
                    @ ''    ORDER BY enrollment_date DESC''),
               calls)"
    unfolding h k_def [symmetric] trim_enrollment_template by simp
  with kb show ?thesis by blast
qed

theorem enrollment_override_sql_witness:
  "generateSQLFromNaturalLanguage sample_env 0 ''Show active enrollment for the last week''
     \<lparr>tables = []\<rparr>
   = (Inr (''SELECT * FROM enrollments '' @ nl
           @ ''    WHERE enrollment_date >= '' @ apostrophe @ ''2024-03-08'' @ apostrophe
           @ '' '' @ nl
           @ ''    AND enrollment_date <= '' @ apostrophe @ ''2024-03-15'' @ apostrophe @ nl
           @ ''    AND status = '' @ apostrophe @ ''active'' @ apostrophe @ nl
           @ ''    ORDER BY enrollment_date DESC''),
      0)"
proof -
  let ?q = "''Show active enrollment for the last week''"
  have r: "0 \<le> clock_now sample_env" "clock_now sample_env \<le> 8640000000000000"
    "\<forall>t isUTC. \<bar>LocalTZA sample_env t isUTC\<bar> \<le> msPerDay"
    by (simp_all add: sample_env_def msPerDay_def)
  have q: "is_enrollment_query ?q"
    by code_simp
  have c1: "\<not> str_includes (toLowerCase ?q) ''month''"
    and c2: "\<not> str_includes (toLowerCase ?q) ''quarter''"
    and c3: "str_includes (toLowerCase ?q) ''active''"
    and c4: "iso_date 1709899200000 = ''2024-03-08''"
    and c5: "iso_date (clock_now sample_env) = ''2024-03-15''"
    and c6: "setDate (LocalTZA sample_env) (clock_now sample_env)
               (getDate (LocalTZA sample_env) (clock_now sample_env) - 7) = Some 1709899200000"
    by code_simp+
  obtain k start where
    s: "setDate (LocalTZA sample_env) (clock_now sample_env)
          (getDate (LocalTZA sample_env) (clock_now sample_env) - 7) = Some start"
    and g: "generateSQLFromNaturalLanguage sample_env 0 ?q \<lparr>tables = []\<rparr> =
              (Inr (''SELECT * FROM enrollments '' @ nl
                    @ ''    WHERE enrollment_date >= '' @ apostrophe
                    @ iso_date start @ apostrophe @ '' '' @ nl
                    @ ''    AND enrollment_date <= '' @ apostrophe
                    @ iso_date (clock_now sample_env) @ apostrophe @ nl
                    @ ''    '' @ (if str_includes (toLowerCase ?q) ''active''
                                  then ''AND status = '' @ apostrophe @ ''active'' @ apostrophe
                                  else []) @ nl
                    @ ''    ORDER BY enrollment_date DESC''),
               0)"
    using enrollment_override_sql [OF r q, of 0 "\<lparr>tables = []\<rparr>"] c1 c2 by auto
  from s c6 have "start = 1709899200000" by simp
  then show ?thesis
    using g c3 by (simp add: c4 c5)
qed

text \<open>
  In a UTC zone on 2024-03-15 a query for the enrollments of this month gets the start
  date 2024-02-15, the same day of the previous month, which is 29 days back; today
  minus 30 days is 2024-02-14.
\<close>

theorem month_not_30_days_counterexample:
  "generateSQLFromNaturalLanguage sample_env 0 ''enrollments this month'' \<lparr>tables = []\<rparr>
   = (Inr (''SELECT * FROM enrollments '' @ nl
           @ ''    WHERE enrollment_date >= '' @ apostrophe @ ''2024-02-15'' @ apostrophe
           @ '' '' @ nl
           @ ''    AND enrollment_date <= '' @ apostrophe @ ''2024-03-15'' @ apostrophe @ nl
           @ ''    '' @ nl
           @ ''    ORDER BY enrollment_date DESC''),
      0)
   \<and> iso_date (clock_now sample_env - 30 * msPerDay) = ''2024-02-14''"
  by code_simp

end
